theory Spec2Isabelle
  imports
    Main
    "HOL-Library.Word"
    "HOL-Library.AList"
    "HOL-Library.Char_ord"
    "HOL-Library.List_Lexorder"
    "HOL-Library.Signed_Division"
begin

chapter \<open>The reqwest request builder and the correlation logger\<close>

text \<open>
  A shallow embedding of \<^verbatim>\<open>src/reqwest/reqwest.go\<close> (the current revision of the
  fluent HTTP request builder), of the \<^verbatim>\<open>JSON\<close> method of an earlier revision of the
  same package, and of the \<^verbatim>\<open>Trace\<close> method of package \<^verbatim>\<open>logger\<close>.

  Go pointers to a builder become explicit state passing: a method that mutates its
  receiver and returns it becomes a function from the builder to the updated builder.
  A run-time panic is the \<open>Inl\<close> branch of a sum. The functions of Go's standard library
  that the code calls are either modelled from their documented behaviour or, where the
  claims do not depend on what they compute, taken as parameters in the record
  \<open>stdlib\<close>.
\<close>

section \<open>Values of the Go run time\<close>

type_synonym byte = "8 word"

text \<open>
  Errors. \<^verbatim>\<open>ErrUnexpectedResponseStatus\<close> is the package's sentinel; \<open>LibraryError\<close>
  stands for an error value made by a library (\<^verbatim>\<open>net/http\<close>, \<^verbatim>\<open>net/url\<close>,
  \<^verbatim>\<open>encoding/json\<close>) or by a caller; \<open>WithStack\<close> and \<open>Wrapf\<close> are the wrappers of
  \<^verbatim>\<open>github.com/pkg/errors\<close>, \<open>Wrapf\<close> with its format string and its one integer
  argument.
\<close>

datatype error =
    ErrUnexpectedResponseStatus
  | LibraryError string
  | WithStack error
  | Wrapf error string int

text \<open>\<^verbatim>\<open>errors.Is\<close>: the target is the error itself or is found by unwrapping it.\<close>

fun errors_Is :: "error \<Rightarrow> error \<Rightarrow> bool" where
  "errors_Is (WithStack cause) target = (WithStack cause = target \<or> errors_Is cause target)"
| "errors_Is (Wrapf cause fmt arg) target = (Wrapf cause fmt arg = target \<or> errors_Is cause target)"
| "errors_Is e target = (e = target)"

datatype panic = AssignmentToNilMap | NilPointerDereference

text \<open>
  A value of type \<^verbatim>\<open>interface{}\<close>, as far as the type switch of \<^verbatim>\<open>Query\<close> and the type
  assertion of \<^verbatim>\<open>Build\<close> tell values apart: a string, a slice of strings, nil, or a
  value of any other dynamic type (named by a tag).
\<close>

datatype dyn = DNil | DString string | DStrings "string list" | DOther string

text \<open>
  \<^verbatim>\<open>context.Context\<close>, as far as \<^verbatim>\<open>Value\<close> reads it: the chain of key/value pairs
  added by \<^verbatim>\<open>context.WithValue\<close>, innermost first. \<^verbatim>\<open>CorrelationIDContextKey\<close> is a
  pointer, equal only to itself; every other key is an \<open>OtherKey\<close>. Contexts are not
  nil (the contract of package \<^verbatim>\<open>context\<close>).
\<close>

datatype ContextKey = CorrelationIDContextKey | OtherKey string

type_synonym Context = "(ContextKey \<times> dyn) list"

definition Background :: Context where
  "Background = []"

definition WithValue :: "Context \<Rightarrow> ContextKey \<Rightarrow> dyn \<Rightarrow> Context" where
  "WithValue parent key val = (key, val) # parent"

definition ctx_Value :: "Context \<Rightarrow> ContextKey \<Rightarrow> dyn" where
  "ctx_Value c key = (case map_of c key of None \<Rightarrow> DNil | Some v \<Rightarrow> v)"

definition CorrelationIDHeaderKey :: string where
  "CorrelationIDHeaderKey = ''x-correlation-id''"

subsection \<open>Maps from strings to string slices\<close>

text \<open>
  \<^verbatim>\<open>url.Values\<close> and \<^verbatim>\<open>http.Header\<close> are both \<^verbatim>\<open>map[string][]string\<close>. \<open>None\<close> is the
  nil map: reading it gives the zero value, assigning into it panics. A map that is not
  nil is an association list, read with \<open>map_of\<close> (the first pair of a key counts) and
  written with \<open>AList.update\<close>.
\<close>

type_synonym Values = "(string \<times> string list) list option"

definition map_len :: "Values \<Rightarrow> nat" where
  "map_len m = (case m of None \<Rightarrow> 0 | Some kvs \<Rightarrow> length (remdups (map fst kvs)))"

definition map_index :: "Values \<Rightarrow> string \<Rightarrow> string list" where
  "map_index m key =
     (case m of None \<Rightarrow> []
      | Some kvs \<Rightarrow> (case map_of kvs key of None \<Rightarrow> [] | Some vs \<Rightarrow> vs))"

definition map_assign :: "Values \<Rightarrow> string \<Rightarrow> string list \<Rightarrow> panic + Values" where
  "map_assign m key vs =
     (case m of None \<Rightarrow> Inl AssignmentToNilMap
      | Some kvs \<Rightarrow> Inr (Some (AList.update key vs kvs)))"

text \<open>\<^verbatim>\<open>url.Values.Add\<close>: \<^verbatim>\<open>v[key] = append(v[key], value)\<close>.\<close>

definition Values_Add :: "Values \<Rightarrow> string \<Rightarrow> string \<Rightarrow> panic + Values" where
  "Values_Add v key val = map_assign v key (map_index v key @ [val])"

text \<open>
  \<^verbatim>\<open>url.Values.Encode\<close>: \<^verbatim>\<open>key=value\<close> pairs joined by \<^verbatim>\<open>&\<close>, keys sorted, the values of
  a key in their order; the empty string for an empty or nil map.
\<close>

fun join_amp :: "string list \<Rightarrow> string" where
  "join_amp [] = []"
| "join_amp [p] = p"
| "join_amp (p # ps) = p @ ''&'' @ join_amp ps"

definition Values_Encode :: "(string \<Rightarrow> string) \<Rightarrow> Values \<Rightarrow> string" where
  "Values_Encode escape v =
     (if map_len v = 0 then ''''
      else join_amp (concat (map
             (\<lambda>k. map (\<lambda>val. escape k @ ''='' @ escape val) (map_index v k))
             (sort (case v of None \<Rightarrow> [] | Some kvs \<Rightarrow> remdups (map fst kvs))))))"

subsection \<open>Byte streams\<close>

text \<open>
  An \<^verbatim>\<open>io.Reader\<close> or \<^verbatim>\<open>io.ReadCloser\<close>: the bytes it will still deliver, the error it
  ends with (\<open>None\<close> for a clean end of file), and whether it has been closed.
\<close>

record stream =
  pending :: "byte list"
  failure :: "error option"
  closed :: bool

definition NewBuffer :: "byte list \<Rightarrow> stream" where
  "NewBuffer bs = \<lparr>pending = bs, failure = None, closed = False\<rparr>"

text \<open>\<^verbatim>\<open>ioutil.ReadAll\<close>: the bytes read, the error, and the stream left behind.\<close>

definition ReadAll :: "stream \<Rightarrow> (byte list \<times> error option) \<times> stream" where
  "ReadAll s = ((pending s, failure s), s\<lparr>pending := []\<rparr>)"

definition Close :: "stream \<Rightarrow> stream" where
  "Close s = s\<lparr>closed := True\<rparr>"

section \<open>Requests and responses of \<^verbatim>\<open>net/http\<close>\<close>

text \<open>
  A parsed URL: its query string and everything else. \<^verbatim>\<open>http.Request\<close> and
  \<^verbatim>\<open>http.Response\<close> with the fields the package reads or writes.
\<close>

record URL =
  url_Location :: string
  RawQuery :: string

record Request =
  req_ctx :: Context
  req_Method :: string
  req_URL :: URL
  req_Header :: Values
  req_Body :: "stream option"

record http_Response =
  StatusCode :: int
  hr_Body :: stream

text \<open>
  \<^verbatim>\<open>(*http.Client).Do\<close> returns a response pointer and an error. The client is not nil:
  every constructor installs \<^verbatim>\<open>http.DefaultClient\<close>.
\<close>

type_synonym Client = "Request \<Rightarrow> http_Response option \<times> error option"

text \<open>
  The library functions taken as parameters: the URL parser, the escaping of query
  components, the canonical form of a header name, and the default client.
\<close>

record stdlib =
  url_Parse :: "string \<Rightarrow> error + URL"
  QueryEscape :: "string \<Rightarrow> string"
  CanonicalMIMEHeaderKey :: "string \<Rightarrow> string"
  DefaultClient :: Client

text \<open>The JSON codec of \<^verbatim>\<open>encoding/json\<close>, for the Go values of type \<open>'v\<close>.\<close>

record 'v json =
  Marshal :: "'v \<Rightarrow> error + byte list"
  Unmarshal :: "byte list \<Rightarrow> error + 'v"

text \<open>
  \<^verbatim>\<open>validMethod\<close> of \<^verbatim>\<open>net/http\<close>: a non-empty sequence of token characters.
\<close>

definition isToken :: "char \<Rightarrow> bool" where
  "isToken c \<longleftrightarrow> c \<in> set (''!#$%&*+-.^_|~0123456789''
      @ ''abcdefghijklmnopqrstuvwxyzABCDEFGHIJKLMNOPQRSTUVWXYZ'' @ [CHR 0x27, CHR 0x60])"

definition validMethod :: "string \<Rightarrow> bool" where
  "validMethod m \<longleftrightarrow> m \<noteq> [] \<and> list_all isToken m"

text \<open>
  \<^verbatim>\<open>http.NewRequest\<close>: an empty method means GET; an invalid method or an unparsable URL
  is an error; the new request has the background context and an empty, non-nil header.
\<close>

definition http_NewRequest :: "stdlib \<Rightarrow> string \<Rightarrow> string \<Rightarrow> stream option \<Rightarrow> error + Request" where
  "http_NewRequest env meth url rd =
     (let m = (if meth = [] then ''GET'' else meth) in
      if \<not> validMethod m then Inl (LibraryError ''net/http: invalid method'')
      else (case url_Parse env url of
              Inl e \<Rightarrow> Inl e
            | Inr u \<Rightarrow> Inr \<lparr>req_ctx = Background, req_Method = m, req_URL = u,
                           req_Header = Some [], req_Body = rd\<rparr>))"

text \<open>\<^verbatim>\<open>http.Header.Add\<close> and \<^verbatim>\<open>http.Header.Get\<close> work on the canonical form of the key.\<close>

definition Header_Add :: "stdlib \<Rightarrow> Values \<Rightarrow> string \<Rightarrow> string \<Rightarrow> panic + Values" where
  "Header_Add env h key val =
     map_assign h (CanonicalMIMEHeaderKey env key)
       (map_index h (CanonicalMIMEHeaderKey env key) @ [val])"

definition Header_Get :: "stdlib \<Rightarrow> Values \<Rightarrow> string \<Rightarrow> string" where
  "Header_Get env h key =
     (case map_index h (CanonicalMIMEHeaderKey env key) of [] \<Rightarrow> '''' | v # _ \<Rightarrow> v)"

section \<open>The request builder\<close>

text \<open>
  \<^verbatim>\<open>RequestBuilder\<close>. Its fields \<^verbatim>\<open>request\<close> and \<^verbatim>\<open>response\<close> are never read or written
  in this revision and are left out. \<^verbatim>\<open>PureRequestBuilder\<close> and
  \<^verbatim>\<open>ImpureRequestBuilder\<close> embed it and add no field.
\<close>

record RequestBuilder =
  client :: Client
  ctx :: Context
  "method" :: string
  endpoint :: string
  query :: Values
  headers :: Values
  body :: "stream option"
  err :: "error option"

type_synonym PureRequestBuilder = RequestBuilder
type_synonym ImpureRequestBuilder = RequestBuilder

record Response =
  resp_Response :: "http_Response option"
  resp_Body :: "byte list"

record ResponseBuilder =
  rb_client :: Client
  rb_request :: "Request option"
  rb_response :: Response
  rb_err :: "error option"

text \<open>
  The process-wide state: the registered interceptors, and the requests handed to the
  transport so far, oldest first. An interceptor receives a pointer to the request and
  may change the request through it; an interceptor that panics is outside the model.
\<close>

type_synonym Interceptor = "Request \<Rightarrow> Request"

record world =
  beforeEachInterceptors :: "Interceptor list"
  wire :: "Request list"

definition BeforeEach :: "Interceptor \<Rightarrow> world \<Rightarrow> world" where
  "BeforeEach interceptor w =
     w\<lparr>beforeEachInterceptors := beforeEachInterceptors w @ [interceptor]\<rparr>"

subsection \<open>Constructors\<close>

definition GET :: "stdlib \<Rightarrow> Context \<Rightarrow> string \<Rightarrow> PureRequestBuilder" where
  "GET env c e = \<lparr>client = DefaultClient env, ctx = c, method = ''GET'', endpoint = e,
     query = Some [], headers = Some [], body = None, err = None\<rparr>"

definition POST :: "stdlib \<Rightarrow> Context \<Rightarrow> string \<Rightarrow> ImpureRequestBuilder" where
  "POST env c e = \<lparr>client = DefaultClient env, ctx = c, method = ''POST'', endpoint = e,
     query = Some [], headers = Some [], body = None, err = None\<rparr>"

definition PATCH :: "stdlib \<Rightarrow> Context \<Rightarrow> string \<Rightarrow> ImpureRequestBuilder" where
  "PATCH env c e = \<lparr>client = DefaultClient env, ctx = c, method = ''PATCH'', endpoint = e,
     query = None, headers = Some [], body = None, err = None\<rparr>"

definition PUT :: "stdlib \<Rightarrow> Context \<Rightarrow> string \<Rightarrow> ImpureRequestBuilder" where
  "PUT env c e = \<lparr>client = DefaultClient env, ctx = c, method = ''PUT'', endpoint = e,
     query = None, headers = Some [], body = None, err = None\<rparr>"

subsection \<open>Configuration\<close>

definition Header :: "string \<Rightarrow> string \<Rightarrow> RequestBuilder \<Rightarrow> panic + RequestBuilder" where
  "Header key val builder =
     (case map_assign (headers builder) key (map_index (headers builder) key @ [val]) of
        Inl p \<Rightarrow> Inl p
      | Inr h \<Rightarrow> Inr (builder\<lparr>headers := h\<rparr>))"

fun Values_AddAll :: "Values \<Rightarrow> string \<Rightarrow> string list \<Rightarrow> panic + Values" where
  "Values_AddAll v key [] = Inr v"
| "Values_AddAll v key (x # xs) =
     (case Values_Add v key x of Inl p \<Rightarrow> Inl p | Inr v' \<Rightarrow> Values_AddAll v' key xs)"

fun Query :: "string \<Rightarrow> dyn \<Rightarrow> RequestBuilder \<Rightarrow> panic + RequestBuilder" where
  "Query key (DString val) builder =
     (case Values_Add (query builder) key val of
        Inl p \<Rightarrow> Inl p
      | Inr q \<Rightarrow> Inr (builder\<lparr>query := q\<rparr>))"
| "Query key (DStrings vals) builder =
     (case Values_AddAll (query builder) key vals of
        Inl p \<Rightarrow> Inl p
      | Inr q \<Rightarrow> Inr (builder\<lparr>query := q\<rparr>))"
| "Query key _ builder = Inr builder"

definition Body :: "stream option \<Rightarrow> ImpureRequestBuilder \<Rightarrow> ImpureRequestBuilder" where
  "Body reader builder = builder\<lparr>body := reader\<rparr>"

definition JSON :: "'v json \<Rightarrow> 'v \<Rightarrow> ImpureRequestBuilder \<Rightarrow> ImpureRequestBuilder" where
  "JSON codec v builder =
     (if err builder \<noteq> None then builder
      else (case Marshal codec v of
              Inl e \<Rightarrow> builder\<lparr>err := Some (WithStack e)\<rparr>
            | Inr out \<Rightarrow> Body (Some (NewBuffer out)) builder))"

subsection \<open>Building\<close>

text \<open>
  \<^verbatim>\<open>Build\<close>. When the builder has headers, the request's header is the builder's own map
  (Go maps are references), so the correlation id that \<^verbatim>\<open>Header.Add\<close> stores is stored
  in the builder's map too: \<open>Build\<close> returns the builder's state after the call beside
  the \<open>ResponseBuilder\<close>. (A request built earlier from the same builder shares the map
  as well; the model does not follow that.)
\<close>

definition Build :: "stdlib \<Rightarrow> RequestBuilder \<Rightarrow> panic + (ResponseBuilder \<times> RequestBuilder)" where
  "Build env builder =
     (let out = \<lparr>rb_client = client builder, rb_request = None,
                 rb_response = \<lparr>resp_Response = None, resp_Body = []\<rparr>, rb_err = None\<rparr>
      in case err builder of
           Some e \<Rightarrow> Inr (out\<lparr>rb_err := Some (WithStack e)\<rparr>, builder)
         | None \<Rightarrow>
             (case http_NewRequest env (method builder) (endpoint builder) (body builder) of
                Inl e \<Rightarrow> Inr (out\<lparr>rb_err := Some (WithStack e)\<rparr>, builder)
              | Inr req0 \<Rightarrow>
                  (let req1 = req0\<lparr>req_ctx := ctx builder\<rparr>;
                       shared = (map_len (headers builder) > 0);
                       req2 = (if shared then req1\<lparr>req_Header := headers builder\<rparr> else req1)
                   in case
                        (case ctx_Value (ctx builder) CorrelationIDContextKey of
                           DString correlationID \<Rightarrow>
                             Header_Add env (req_Header req2) CorrelationIDHeaderKey correlationID
                         | _ \<Rightarrow> Inr (req_Header req2))
                      of
                        Inl p \<Rightarrow> Inl p
                      | Inr h \<Rightarrow>
                          (let req3 = req2\<lparr>req_Header := h\<rparr>;
                               req4 = req3\<lparr>req_URL := (req_URL req3)
                                        \<lparr>RawQuery := Values_Encode (QueryEscape env) (query builder)\<rparr>\<rparr>
                           in Inr (out\<lparr>rb_request := Some req4\<rparr>,
                                   if shared then builder\<lparr>headers := h\<rparr> else builder)))))"

definition Request_of ::
  "stdlib \<Rightarrow> RequestBuilder \<Rightarrow> panic + ((Request option \<times> error option) \<times> RequestBuilder)" where
  "Request_of env builder =
     (case Build env builder of
        Inl p \<Rightarrow> Inl p
      | Inr (responseBuilder, builder') \<Rightarrow>
          (case rb_err responseBuilder of
             Some e \<Rightarrow> Inr ((rb_request responseBuilder, Some (WithStack e)), builder')
           | None \<Rightarrow> Inr ((rb_request responseBuilder, None), builder')))"

subsection \<open>Sending\<close>

definition makeRequest :: "ResponseBuilder \<Rightarrow> world \<Rightarrow> panic + (ResponseBuilder \<times> world)" where
  "makeRequest builder w =
     (if rb_err builder \<noteq> None then Inr (builder, w)
      else (case rb_request builder of
              None \<Rightarrow> Inl NilPointerDereference
            | Some req0 \<Rightarrow>
                (let req = fold (\<lambda>interceptor r. interceptor r) (beforeEachInterceptors w) req0;
                     w' = w\<lparr>wire := wire w @ [req]\<rparr>;
                     builder1 = builder\<lparr>rb_request := Some req\<rparr>
                 in case rb_client builder req of
                      (response, Some e) \<Rightarrow>
                        Inr (builder1\<lparr>rb_response := \<lparr>resp_Response = response, resp_Body = []\<rparr>,
                                      rb_err := Some (WithStack e)\<rparr>, w')
                    | (None, None) \<Rightarrow> Inl NilPointerDereference
                    | (Some response, None) \<Rightarrow>
                        (let ((bytes, _), drained) = ReadAll (hr_Body response);
                             response' = response\<lparr>hr_Body := Close drained\<rparr>;
                             builder2 = builder1\<lparr>rb_response :=
                                          \<lparr>resp_Response = Some response', resp_Body = bytes\<rparr>\<rparr>
                         in if StatusCode response < 200 \<or> StatusCode response > 299
                            then Inr (builder2\<lparr>rb_err := Some (Wrapf ErrUnexpectedResponseStatus
                                        ''got status %d'' (StatusCode response))\<rparr>, w')
                            else Inr (builder2, w')))))"

text \<open>
  \<^verbatim>\<open>Send\<close> returns the response and the error. The builder's state after the call is not
  part of the result: its header map may be the one of the request that the interceptors
  and the transport were given.
\<close>

definition Send ::
  "stdlib \<Rightarrow> RequestBuilder \<Rightarrow> world \<Rightarrow> panic + ((Response \<times> error option) \<times> world)" where
  "Send env builder w =
     (case Build env builder of
        Inl p \<Rightarrow> Inl p
      | Inr (responseBuilder, builder') \<Rightarrow>
          (case makeRequest responseBuilder w of
             Inl p \<Rightarrow> Inl p
           | Inr (responseBuilder', w') \<Rightarrow>
               (case rb_err responseBuilder' of
                  Some e \<Rightarrow> Inr ((rb_response responseBuilder', Some (WithStack e)), w')
                | None \<Rightarrow> Inr ((rb_response responseBuilder', None), w'))))"

subsection \<open>Reading a response\<close>

definition Response_JSON :: "'v json \<Rightarrow> Response \<Rightarrow> error + 'v" where
  "Response_JSON codec response = Unmarshal codec (resp_Body response)"

definition Bytes :: "Response \<Rightarrow> byte list" where
  "Bytes response = resp_Body response"

definition Text :: "Response \<Rightarrow> string" where
  "Text response = map (\<lambda>b. char_of (unat b)) (resp_Body response)"

subsection \<open>Chains of calls\<close>

text \<open>
  The values that \<^verbatim>\<open>Build\<close> adds under the canonical correlation header: the context's
  correlation id when it is a string, nothing otherwise.
\<close>

definition correlation_values :: "Context \<Rightarrow> string list" where
  "correlation_values c =
     (case ctx_Value c CorrelationIDContextKey of
        DString correlationID \<Rightarrow> [correlationID]
      | _ \<Rightarrow> [])"

text \<open>\<^verbatim>\<open>builder.Header(key, v1).Header(key, v2)...\<close>: one call per value, in order.\<close>

fun Header_calls :: "string \<Rightarrow> string list \<Rightarrow> RequestBuilder \<Rightarrow> panic + RequestBuilder" where
  "Header_calls key [] builder = Inr builder"
| "Header_calls key (v # vs) builder =
     (case Header key v builder of Inl p \<Rightarrow> Inl p | Inr builder' \<Rightarrow> Header_calls key vs builder')"

text \<open>A chain of configuration calls on one builder, each applied to the result of the last.\<close>

datatype 'v call =
    CallHeader string string
  | CallQuery string dyn
  | CallBody "stream option"
  | CallJSON 'v

fun apply_call :: "'v json \<Rightarrow> 'v call \<Rightarrow> RequestBuilder \<Rightarrow> panic + RequestBuilder" where
  "apply_call codec (CallHeader key val) builder = Header key val builder"
| "apply_call codec (CallQuery key val) builder = Query key val builder"
| "apply_call codec (CallBody reader) builder = Inr (Body reader builder)"
| "apply_call codec (CallJSON v) builder = Inr (JSON codec v builder)"

fun chain :: "'v json \<Rightarrow> 'v call list \<Rightarrow> RequestBuilder \<Rightarrow> panic + RequestBuilder" where
  "chain codec [] builder = Inr builder"
| "chain codec (c # cs) builder =
     (case apply_call codec c builder of Inl p \<Rightarrow> Inl p | Inr builder' \<Rightarrow> chain codec cs builder')"

subsection \<open>An instance of the library parameters\<close>

text \<open>
  A library to run the model on concrete requests: the parser splits the endpoint at its
  first question mark, nothing is escaped, the correlation header name is put in its
  canonical form, and the default client answers every request with an empty 200. The
  codec writes a string of bytes between double quotes and reads it back.
\<close>

definition test_stdlib :: stdlib where
  "test_stdlib = \<lparr>
     url_Parse = (\<lambda>s. Inr \<lparr>url_Location = takeWhile (\<lambda>c. c \<noteq> CHR ''?'') s,
                             RawQuery = drop 1 (dropWhile (\<lambda>c. c \<noteq> CHR ''?'') s)\<rparr>),
     QueryEscape = (\<lambda>s. s),
     CanonicalMIMEHeaderKey =
       (\<lambda>k. if k = ''x-correlation-id'' then ''X-Correlation-Id''
            else if k = ''content-type'' then ''Content-Type'' else k),
     DefaultClient = (\<lambda>req. (Some \<lparr>StatusCode = 200, hr_Body = NewBuffer []\<rparr>, None))\<rparr>"

definition test_json :: "byte list json" where
  "test_json = \<lparr>
     Marshal = (\<lambda>bs. if 0x22 \<in> set bs then Inl (LibraryError ''json: unsupported value'')
                     else Inr ([0x22] @ bs @ [0x22])),
     Unmarshal = (\<lambda>bs. if 2 \<le> length bs \<and> hd bs = 0x22 \<and> last bs = 0x22
                      then Inr (butlast (tl bs))
                      else Inl (LibraryError ''json: invalid input''))\<rparr>"

text \<open>
  \<^verbatim>\<open>encoding/json\<close> for the Go type \<^verbatim>\<open>struct{ secret int }\<close>, a value of which is given by
  its field. \<^verbatim>\<open>Marshal\<close> writes exported fields only, so it accepts every value of the type
  and writes it as \<^verbatim>\<open>{}\<close>; \<^verbatim>\<open>Unmarshal\<close> into a fresh variable stores exported fields only,
  so \<^verbatim>\<open>{}\<close> and \<^verbatim>\<open>null\<close> leave the zero value. Other inputs, which \<^verbatim>\<open>Marshal\<close> never
  produces for this type, are not modelled and are answered with an error.
\<close>

definition unexported_json :: "int json" where
  "unexported_json = \<lparr>
     Marshal = (\<lambda>v. Inr [0x7B, 0x7D]),
     Unmarshal = (\<lambda>bs. if bs = [0x7B, 0x7D] \<or> bs = [0x6E, 0x75, 0x6C, 0x6C] then Inr 0
                      else Inl (LibraryError ''json: input outside the model''))\<rparr>"

text \<open>A client that answers every request with the given status and body.\<close>

definition answering :: "int \<Rightarrow> byte list \<Rightarrow> Client" where
  "answering status bs = (\<lambda>req. (Some \<lparr>StatusCode = status, hr_Body = NewBuffer bs\<rparr>, None))"

section \<open>An earlier revision of the builder\<close>

text \<open>
  The revision of the package in which \<^verbatim>\<open>JSON\<close> sets the content type. The builder has no
  \<^verbatim>\<open>body\<close> field there: \<^verbatim>\<open>POST\<close> makes a request at once and \<^verbatim>\<open>JSON\<close> stores the body in
  it, while \<^verbatim>\<open>Build\<close> makes a fresh request without a body and gives it the builder's
  headers. The fields \<^verbatim>\<open>client\<close>, \<^verbatim>\<open>response\<close> and \<^verbatim>\<open>query\<close>, which none of these functions
  reads, are left out.
\<close>

record RequestBuilder1 =
  ctx1 :: Context
  method1 :: string
  endpoint1 :: string
  request1 :: "Request option"
  err1 :: "error option"
  headers1 :: Values

definition Header1 :: "string \<Rightarrow> string \<Rightarrow> RequestBuilder1 \<Rightarrow> panic + RequestBuilder1" where
  "Header1 key val builder =
     (case map_assign (headers1 builder) key (map_index (headers1 builder) key @ [val]) of
        Inl p \<Rightarrow> Inl p
      | Inr h \<Rightarrow> Inr (builder\<lparr>headers1 := h\<rparr>))"

definition JSON1 :: "'v json \<Rightarrow> 'v \<Rightarrow> RequestBuilder1 \<Rightarrow> panic + RequestBuilder1" where
  "JSON1 codec v builder =
     (if err1 builder \<noteq> None then Inr builder
      else (case Header1 ''content-type'' ''application/json'' builder of
              Inl p \<Rightarrow> Inl p
            | Inr builder' \<Rightarrow>
                (if err1 builder' \<noteq> None then Inr builder'
                 else (case Marshal codec v of
                         Inl e \<Rightarrow> Inr (builder'\<lparr>err1 := Some e\<rparr>)
                       | Inr out \<Rightarrow>
                           (case request1 builder' of
                              None \<Rightarrow> Inl NilPointerDereference
                            | Some req \<Rightarrow>
                                Inr (builder'\<lparr>request1 :=
                                       Some (req\<lparr>req_Body := Some (NewBuffer out)\<rparr>)\<rparr>))))))"

definition Build1 :: "stdlib \<Rightarrow> RequestBuilder1 \<Rightarrow> Request option \<times> error option" where
  "Build1 env builder =
     (case err1 builder of
        Some e \<Rightarrow> (None, Some (WithStack e))
      | None \<Rightarrow>
          (case http_NewRequest env (method1 builder) (endpoint1 builder) None of
             Inl e \<Rightarrow> (None, Some (WithStack e))
           | Inr req0 \<Rightarrow>
               (let req1 = req0\<lparr>req_ctx := ctx1 builder\<rparr>;
                    req2 = (if map_len (headers1 builder) > 0
                            then req1\<lparr>req_Header := headers1 builder\<rparr> else req1)
                in (Some req2, None))))"

definition POST1 :: "stdlib \<Rightarrow> Context \<Rightarrow> string \<Rightarrow> panic + RequestBuilder1" where
  "POST1 env c e =
     (case http_NewRequest env ''POST'' e None of
        Inl er \<Rightarrow> Inl NilPointerDereference
      | Inr req \<Rightarrow>
          Inr \<lparr>ctx1 = c, method1 = ''POST'', endpoint1 = [], request1 = Some (req\<lparr>req_ctx := c\<rparr>),
               err1 = None, headers1 = Some []\<rparr>)"

section \<open>The logger\<close>

text \<open>
  Package \<^verbatim>\<open>logger\<close>. A log line is what zerolog is given: the level, the
  \<^verbatim>\<open>correlation_id\<close> field and the message (the caller location, read from the stack, is
  left out). The world of the logger is the lines written so far, oldest first, and the
  number of times the clock has been read; the clock itself is a parameter that gives the
  successive readings of \<^verbatim>\<open>time.Now\<close> in nanoseconds since the Unix epoch. A handler is
  caller code and may act on the world.
\<close>

datatype Event = Event string

definition Events_TraceStart :: Event where "Events_TraceStart = Event ''trace_start''"
definition Events_TraceEnd :: Event where "Events_TraceEnd = Event ''trace_end''"
definition Events_Info :: Event where "Events_Info = Event ''info''"
definition Events_Error :: Event where "Events_Error = Event ''error''"
definition Events_Debug :: Event where "Events_Debug = Event ''debug''"

record log_line =
  level :: string
  correlation_id :: string
  message :: string

record log_world =
  clock_reads :: nat
  written :: "log_line list"

type_synonym EventHandler = "Event \<Rightarrow> string \<Rightarrow> log_world \<Rightarrow> log_world"

record logger =
  prefix :: string
  beforeEach :: "EventHandler list"

type_synonym Tracer = "logger \<Rightarrow> log_world \<Rightarrow> log_world"

definition New :: logger where
  "New = \<lparr>prefix = [], beforeEach = []\<rparr>"

definition Prefix :: "string \<Rightarrow> logger \<Rightarrow> logger" where
  "Prefix p log = log\<lparr>prefix := p\<rparr>"

definition logger_BeforeEach :: "EventHandler \<Rightarrow> logger \<Rightarrow> logger" where
  "logger_BeforeEach handler log = log\<lparr>beforeEach := beforeEach log @ [handler]\<rparr>"

definition callBeforeEachHandlers :: "logger \<Rightarrow> Event \<Rightarrow> string \<Rightarrow> log_world \<Rightarrow> log_world" where
  "callBeforeEachHandlers log event msg w = fold (\<lambda>handler. handler event msg) (beforeEach log) w"

definition time_Now :: "(nat \<Rightarrow> int) \<Rightarrow> log_world \<Rightarrow> int \<times> log_world" where
  "time_Now clock w = (clock (clock_reads w), w\<lparr>clock_reads := Suc (clock_reads w)\<rparr>)"

definition UnixMilli :: "int \<Rightarrow> int" where
  "UnixMilli t = t div 1000000"

text \<open>\<^verbatim>\<open>Duration.Milliseconds\<close>: Go's integer division, which truncates toward zero.\<close>

definition Milliseconds :: "int \<Rightarrow> int" where
  "Milliseconds d = d sdiv 1000000"

text \<open>The verb \<^verbatim>\<open>%d\<close>: an integer in decimal.\<close>

fun digits :: "nat \<Rightarrow> string" where
  "digits n = (if n < 10 then [''0123456789'' ! n]
               else digits (n div 10) @ [''0123456789'' ! (n mod 10)])"

declare digits.simps [simp del]

definition format_d :: "int \<Rightarrow> string" where
  "format_d i = (if i < 0 then ''-'' @ digits (nat (- i)) else digits (nat i))"

definition emit :: "string \<Rightarrow> string \<Rightarrow> string \<Rightarrow> log_world \<Rightarrow> log_world" where
  "emit lvl cid msg w =
     w\<lparr>written := written w @ [\<lparr>level = lvl, correlation_id = cid, message = msg\<rparr>]\<rparr>"

text \<open>
  \<^verbatim>\<open>Trace\<close>. The closure it returns holds the pointer to the logger, so it takes the
  logger's state at the time it is invoked.
\<close>

definition Trace :: "(nat \<Rightarrow> int) \<Rightarrow> string \<Rightarrow> logger \<Rightarrow> log_world \<Rightarrow> Tracer \<times> log_world" where
  "Trace clock msg log w0 =
     (let w1 = callBeforeEachHandlers log Events_TraceStart msg w0;
          (start, w2) = time_Now clock w1;
          (now, w3) = time_Now clock w2;
          (since, w4) = time_Now clock w3;
          w5 = emit ''info'' (prefix log)
                 (''[END - '' @ format_d (UnixMilli now) @ ''(''
                    @ format_d (Milliseconds (since - start)) @ ''ms)] '' @ msg) w4
      in (\<lambda>log' v0.
            (let v1 = callBeforeEachHandlers log' Events_TraceEnd msg v0;
                 (now', v2) = time_Now clock v1;
                 (since', v3) = time_Now clock v2
             in emit ''info'' (prefix log')
                  (''[END - '' @ format_d (UnixMilli now') @ ''(''
                     @ format_d (Milliseconds (since' - start)) @ ''ms)] '' @ msg) v3),
          w5))"

definition Info :: "string \<Rightarrow> logger \<Rightarrow> log_world \<Rightarrow> log_world" where
  "Info msg log w = emit ''info'' (prefix log) msg (callBeforeEachHandlers log Events_Info msg w)"

definition Error :: "string \<Rightarrow> logger \<Rightarrow> log_world \<Rightarrow> log_world" where
  "Error msg log w = emit ''error'' (prefix log) msg (callBeforeEachHandlers log Events_Error msg w)"

definition Debug :: "string \<Rightarrow> logger \<Rightarrow> log_world \<Rightarrow> log_world" where
  "Debug msg log w = emit ''debug'' (prefix log) msg (callBeforeEachHandlers log Events_Debug msg w)"

text \<open>
  A clock for running \<^verbatim>\<open>Trace\<close>: one second after the epoch for the first three
  readings, a quarter of a second later from then on.
\<close>

definition test_clock :: "nat \<Rightarrow> int" where
  "test_clock k = (if k < 3 then 1000000000 else 1250000000)"

section \<open>Properties of maps and of \<^verbatim>\<open>Build\<close>\<close>

lemma map_index_assign:
  "map_assign m k vs = Inr m' \<Longrightarrow> map_index m' k' = (if k' = k then vs else map_index m k')"
  by (auto simp: map_assign_def map_index_def update_conv' split: option.splits)

lemma map_assign_Some: "map_assign (Some kvs) k vs = Inr (Some (AList.update k vs kvs))"
  by (simp add: map_assign_def)

lemma map_index_len0: "map_len m = 0 \<Longrightarrow> map_index m k = []"
  by (auto simp: map_len_def map_index_def split: option.splits)

lemma map_len_pos: "0 < map_len m \<Longrightarrow> \<exists>kvs. m = Some kvs"
  by (auto simp: map_len_def split: option.splits)

lemma Build_error:
  "err b = Some e \<Longrightarrow>
   Build env b = Inr (\<lparr>rb_client = client b, rb_request = None,
                       rb_response = \<lparr>resp_Response = None, resp_Body = []\<rparr>,
                       rb_err = Some (WithStack e)\<rparr>, b)"
  by (simp add: Build_def)

lemma Build_NewRequest_error:
  "err b = None \<Longrightarrow> http_NewRequest env (method b) (endpoint b) (body b) = Inl e \<Longrightarrow>
   Build env b = Inr (\<lparr>rb_client = client b, rb_request = None,
                       rb_response = \<lparr>resp_Response = None, resp_Body = []\<rparr>,
                       rb_err = Some (WithStack e)\<rparr>, b)"
  by (simp add: Build_def)

lemma Build_request:
  assumes "err b = None"
    and "http_NewRequest env (method b) (endpoint b) (body b) = Inr req0"
  shows "\<exists>h. Build env b =
      Inr (\<lparr>rb_client = client b,
            rb_request = Some (req0\<lparr>req_ctx := ctx b, req_Header := h,
              req_URL := (req_URL req0)\<lparr>RawQuery := Values_Encode (QueryEscape env) (query b)\<rparr>\<rparr>),
            rb_response = \<lparr>resp_Response = None, resp_Body = []\<rparr>, rb_err = None\<rparr>,
           if 0 < map_len (headers b) then b\<lparr>headers := h\<rparr> else b)
    \<and> (\<forall>k. map_index h k = map_index (headers b) k @
          (if k = CanonicalMIMEHeaderKey env CorrelationIDHeaderKey
           then correlation_values (ctx b) else []))"
proof -
  let ?ck = "CanonicalMIMEHeaderKey env CorrelationIDHeaderKey"
  have fresh: "req_Header req0 = Some []"
    using assms(2) by (auto simp: http_NewRequest_def Let_def split: if_splits sum.splits)
  define base where "base = (if 0 < map_len (headers b) then headers b else Some [])"
  obtain kvs where kvs: "base = Some kvs"
    unfolding base_def using map_len_pos by (cases "0 < map_len (headers b)") auto
  have base_index: "map_index base k = map_index (headers b) k" for k
    unfolding base_def by (simp add: map_index_len0) (simp add: map_index_def)
  define h where "h = (case ctx_Value (ctx b) CorrelationIDContextKey of
      DString correlationID \<Rightarrow> Some (AList.update ?ck (map_index base ?ck @ [correlationID]) kvs)
    | _ \<Rightarrow> base)"
  have req: "(if 0 < map_len (headers b) then req0\<lparr>req_ctx := ctx b, req_Header := headers b\<rparr>
             else req0\<lparr>req_ctx := ctx b\<rparr>) = req0\<lparr>req_ctx := ctx b, req_Header := base\<rparr>"
    unfolding base_def using fresh by simp
  have same: "0 < map_len (headers b) \<Longrightarrow> b\<lparr>headers := Some kvs\<rparr> = b"
    using kvs unfolding base_def by (cases b) auto
  have "Build env b =
      Inr (\<lparr>rb_client = client b,
            rb_request = Some (req0\<lparr>req_ctx := ctx b, req_Header := h,
              req_URL := (req_URL req0)\<lparr>RawQuery := Values_Encode (QueryEscape env) (query b)\<rparr>\<rparr>),
            rb_response = \<lparr>resp_Response = None, resp_Body = []\<rparr>, rb_err = None\<rparr>,
           if 0 < map_len (headers b) then b\<lparr>headers := h\<rparr> else b)"
    using assms
    by (cases "ctx_Value (ctx b) CorrelationIDContextKey")
       (simp_all add: Build_def Let_def req h_def Header_Add_def kvs map_assign_Some same)
  moreover have "map_index h k = map_index (headers b) k @
          (if k = ?ck then correlation_values (ctx b) else [])" for k
    using base_index[of k] base_index[of ?ck]
    by (cases "ctx_Value (ctx b) CorrelationIDContextKey")
       (auto simp: h_def correlation_values_def kvs map_index_def update_conv')
  ultimately show ?thesis by blast
qed

lemma Build_total: "\<exists>rb b'. Build env b = Inr (rb, b')"
proof (cases "err b")
  case (Some e) then show ?thesis using Build_error by blast
next
  case None
  show ?thesis
  proof (cases "http_NewRequest env (method b) (endpoint b) (body b)")
    case (Inl e) with None show ?thesis using Build_NewRequest_error by blast
  next
    case (Inr req0) with None show ?thesis using Build_request by blast
  qed
qed

lemma Build_built:
  assumes "Build env b = Inr (rb, b')" and "rb_request rb = Some req"
  shows "err b = None"
    and "rb_err rb = None"
    and "rb_client rb = client b"
    and "req_Body req = body b"
    and "req_ctx req = ctx b"
    and "RawQuery (req_URL req) = Values_Encode (QueryEscape env) (query b)"
    and "map_index (req_Header req) k = map_index (headers b) k @
          (if k = CanonicalMIMEHeaderKey env CorrelationIDHeaderKey
           then correlation_values (ctx b) else [])"
    and "\<exists>u. http_NewRequest env (method b) (endpoint b) (body b)
           = Inr \<lparr>req_ctx = Background, req_Method = req_Method req,
                  req_URL = u, req_Header = Some [], req_Body = body b\<rparr>"
proof -
  have e: "err b = None"
    using assms Build_error[of b _ env] by (cases "err b") auto
  obtain req0 where r0: "http_NewRequest env (method b) (endpoint b) (body b) = Inr req0"
    using assms e Build_NewRequest_error[of b env]
    by (cases "http_NewRequest env (method b) (endpoint b) (body b)") auto
  have shape: "req0 = \<lparr>req_ctx = Background, req_Method = req_Method req0,
                  req_URL = req_URL req0, req_Header = Some [], req_Body = body b\<rparr>"
    using r0 by (auto simp: http_NewRequest_def Let_def split: if_splits sum.splits)
  obtain h where h: "Build env b =
      Inr (\<lparr>rb_client = client b,
            rb_request = Some (req0\<lparr>req_ctx := ctx b, req_Header := h,
              req_URL := (req_URL req0)\<lparr>RawQuery := Values_Encode (QueryEscape env) (query b)\<rparr>\<rparr>),
            rb_response = \<lparr>resp_Response = None, resp_Body = []\<rparr>, rb_err = None\<rparr>,
           if 0 < map_len (headers b) then b\<lparr>headers := h\<rparr> else b)"
    and hi: "\<And>k. map_index h k = map_index (headers b) k @
          (if k = CanonicalMIMEHeaderKey env CorrelationIDHeaderKey
           then correlation_values (ctx b) else [])"
    using Build_request[OF e r0] by blast
  have rq: "req = req0\<lparr>req_ctx := ctx b, req_Header := h,
              req_URL := (req_URL req0)\<lparr>RawQuery := Values_Encode (QueryEscape env) (query b)\<rparr>\<rparr>"
    and rb: "rb = \<lparr>rb_client = client b, rb_request = Some req,
            rb_response = \<lparr>resp_Response = None, resp_Body = []\<rparr>, rb_err = None\<rparr>"
    using assms h by auto
  show "err b = None" by (rule e)
  show "rb_err rb = None" by (subst rb) simp
  show "rb_client rb = client b" by (subst rb) simp
  have "req_Body req0 = body b" by (subst shape) simp
  then show "req_Body req = body b" by (subst rq) simp
  show "req_ctx req = ctx b" by (subst rq) simp
  show "RawQuery (req_URL req) = Values_Encode (QueryEscape env) (query b)" by (subst rq) simp
  show "map_index (req_Header req) k = map_index (headers b) k @
          (if k = CanonicalMIMEHeaderKey env CorrelationIDHeaderKey
           then correlation_values (ctx b) else [])"
    using hi[of k] by (subst rq) simp
  have "req_Method req = req_Method req0" by (subst rq) simp
  then show "\<exists>u. http_NewRequest env (method b) (endpoint b) (body b)
           = Inr \<lparr>req_ctx = Background, req_Method = req_Method req,
                  req_URL = u, req_Header = Some [], req_Body = body b\<rparr>"
    using r0 shape by metis
qed

section \<open>Headers\<close>

lemma Header_fields:
  assumes "Header key val b = Inr b'"
  shows "map_index (headers b') k = (if k = key then map_index (headers b) key @ [val]
                                     else map_index (headers b) k)"
    and "ctx b' = ctx b" and "err b' = err b" and "client b' = client b"
    and "body b' = body b" and "query b' = query b"
    and "method b' = method b" and "endpoint b' = endpoint b"
  using assms map_index_assign[of "headers b" key "map_index (headers b) key @ [val]" _ k]
  by (auto simp: Header_def split: sum.splits)

lemma Header_calls_fields:
  "Header_calls key vals b = Inr b' \<Longrightarrow>
     map_index (headers b') key = map_index (headers b) key @ vals
     \<and> ctx b' = ctx b \<and> err b' = err b"
proof (induction vals arbitrary: b)
  case Nil
  then show ?case by simp
next
  case (Cons v vs)
  then obtain b1 where b1: "Header key v b = Inr b1" and rest: "Header_calls key vs b1 = Inr b'"
    by (auto split: sum.splits)
  show ?case
    using Cons.IH[OF rest] Header_fields(1)[OF b1, of key] Header_fields(2,3)[OF b1] by simp
qed

text \<open>
  Claim C2. Let \<^verbatim>\<open>Header\<close> be called on a builder once for each of the values \<open>vals\<close>, in
  this order and always with the same key, and let \<^verbatim>\<open>Build\<close> then make a request. Under
  that key the request's header holds the values the builder had before, followed by
  \<open>vals\<close> in call order: nothing is overwritten. Only under the canonical name of the
  correlation header, and only when the context carries a correlation id, one more value
  follows, the one that \<^verbatim>\<open>Build\<close> adds.
\<close>

theorem Header_calls_accumulate:
  assumes "Header_calls key vals b = Inr b1"
    and "Build env b1 = Inr (rb, b2)"
    and "rb_request rb = Some req"
  shows "map_index (req_Header req) key =
           map_index (headers b) key @ vals @
             (if key = CanonicalMIMEHeaderKey env CorrelationIDHeaderKey
              then correlation_values (ctx b) else [])"
  using Header_calls_fields[OF assms(1)] Build_built(7)[OF assms(2,3), of key] by simp

text \<open>The theorem at a concrete input, every hypothesis discharged there.\<close>

theorem Header_calls_accumulate_witness:
  "Header_calls ''accept'' [''a'', ''b''] (GET test_stdlib Background ''http://foo.com'') = Inr ((GET test_stdlib Background ''http://foo.com'')\<lparr>headers := Some [(''accept'', [''a'', ''b''])]\<rparr>)
   \<and> Build test_stdlib ((GET test_stdlib Background ''http://foo.com'')\<lparr>headers := Some [(''accept'', [''a'', ''b''])]\<rparr>) = Inr (\<lparr>rb_client = DefaultClient test_stdlib, rb_request = Some (\<lparr>req_ctx = Background, req_Method = ''GET'', req_URL = \<lparr>url_Location = ''http://foo.com'', RawQuery = []\<rparr>, req_Header = Some [(''accept'', [''a'', ''b''])], req_Body = None\<rparr>), rb_response = \<lparr>resp_Response = None, resp_Body = []\<rparr>, rb_err = None\<rparr>, ((GET test_stdlib Background ''http://foo.com'')\<lparr>headers := Some [(''accept'', [''a'', ''b''])]\<rparr>))
   \<and> map_index (req_Header (\<lparr>req_ctx = Background, req_Method = ''GET'', req_URL = \<lparr>url_Location = ''http://foo.com'', RawQuery = []\<rparr>, req_Header = Some [(''accept'', [''a'', ''b''])], req_Body = None\<rparr>)) ''accept'' = [''a'', ''b'']"
proof -
  have 1: "Header_calls ''accept'' [''a'', ''b''] (GET test_stdlib Background ''http://foo.com'') = Inr ((GET test_stdlib Background ''http://foo.com'')\<lparr>headers := Some [(''accept'', [''a'', ''b''])]\<rparr>)"
    by (simp add: GET_def POST_def PATCH_def PUT_def test_stdlib_def test_json_def Header_def map_assign_def map_index_def Build_def http_NewRequest_def validMethod_def isToken_def Let_def map_len_def ctx_Value_def Background_def WithValue_def Values_Encode_def Values_Add_def CorrelationIDHeaderKey_def Header_Add_def Header_Get_def Body_def JSON_def NewBuffer_def answering_def)
  have 2: "Build test_stdlib ((GET test_stdlib Background ''http://foo.com'')\<lparr>headers := Some [(''accept'', [''a'', ''b''])]\<rparr>) = Inr (\<lparr>rb_client = DefaultClient test_stdlib, rb_request = Some (\<lparr>req_ctx = Background, req_Method = ''GET'', req_URL = \<lparr>url_Location = ''http://foo.com'', RawQuery = []\<rparr>, req_Header = Some [(''accept'', [''a'', ''b''])], req_Body = None\<rparr>), rb_response = \<lparr>resp_Response = None, resp_Body = []\<rparr>, rb_err = None\<rparr>, ((GET test_stdlib Background ''http://foo.com'')\<lparr>headers := Some [(''accept'', [''a'', ''b''])]\<rparr>))"
    by (simp add: GET_def POST_def PATCH_def PUT_def test_stdlib_def test_json_def Header_def map_assign_def map_index_def Build_def http_NewRequest_def validMethod_def isToken_def Let_def map_len_def ctx_Value_def Background_def WithValue_def Values_Encode_def Values_Add_def CorrelationIDHeaderKey_def Header_Add_def Header_Get_def Body_def JSON_def NewBuffer_def answering_def)
  have 3: "rb_request (\<lparr>rb_client = DefaultClient test_stdlib, rb_request = Some (\<lparr>req_ctx = Background, req_Method = ''GET'', req_URL = \<lparr>url_Location = ''http://foo.com'', RawQuery = []\<rparr>, req_Header = Some [(''accept'', [''a'', ''b''])], req_Body = None\<rparr>), rb_response = \<lparr>resp_Response = None, resp_Body = []\<rparr>, rb_err = None\<rparr>) = Some (\<lparr>req_ctx = Background, req_Method = ''GET'', req_URL = \<lparr>url_Location = ''http://foo.com'', RawQuery = []\<rparr>, req_Header = Some [(''accept'', [''a'', ''b''])], req_Body = None\<rparr>)" by simp
  from Header_calls_accumulate[OF 1 2 3] have
    "map_index (req_Header (\<lparr>req_ctx = Background, req_Method = ''GET'', req_URL = \<lparr>url_Location = ''http://foo.com'', RawQuery = []\<rparr>, req_Header = Some [(''accept'', [''a'', ''b''])], req_Body = None\<rparr>)) ''accept'' = [''a'', ''b'']"
    by (simp add: GET_def POST_def PATCH_def PUT_def test_stdlib_def test_json_def Header_def map_assign_def map_index_def Build_def http_NewRequest_def validMethod_def isToken_def Let_def map_len_def ctx_Value_def Background_def WithValue_def Values_Encode_def Values_Add_def CorrelationIDHeaderKey_def Header_Add_def Header_Get_def Body_def JSON_def NewBuffer_def answering_def correlation_values_def)
  with 1 2 show ?thesis by blast
qed

text \<open>
  Claim C5. When the builder's context holds a string under \<^verbatim>\<open>CorrelationIDContextKey\<close>
  and \<^verbatim>\<open>Build\<close> makes a request, that string is in the request's header under the
  canonical name of \<^verbatim>\<open>x-correlation-id\<close>, as the last value, put there by \<^verbatim>\<open>Build\<close> and
  by no call of \<^verbatim>\<open>Header\<close>. When no \<^verbatim>\<open>Header\<close> call stored a value under that name, it
  is the only value, and \<^verbatim>\<open>Header.Get\<close> returns exactly the correlation id.
\<close>

theorem Build_injects_correlation_id:
  assumes "ctx_Value (ctx b) CorrelationIDContextKey = DString correlationID"
    and "Build env b = Inr (rb, b')"
    and "rb_request rb = Some req"
  shows "map_index (req_Header req) (CanonicalMIMEHeaderKey env CorrelationIDHeaderKey) =
           map_index (headers b) (CanonicalMIMEHeaderKey env CorrelationIDHeaderKey) @ [correlationID]
     \<and> (map_index (headers b) (CanonicalMIMEHeaderKey env CorrelationIDHeaderKey) = [] \<longrightarrow>
           Header_Get env (req_Header req) CorrelationIDHeaderKey = correlationID)"
proof -
  have 1: "map_index (req_Header req) (CanonicalMIMEHeaderKey env CorrelationIDHeaderKey) =
           map_index (headers b) (CanonicalMIMEHeaderKey env CorrelationIDHeaderKey) @ [correlationID]"
    using Build_built(7)[OF assms(2,3), of "CanonicalMIMEHeaderKey env CorrelationIDHeaderKey"] assms(1)
    by (simp add: correlation_values_def)
  then show ?thesis by (simp add: Header_Get_def)
qed

text \<open>The theorem at a concrete input, every hypothesis discharged there.\<close>

theorem Build_injects_correlation_id_witness:
  "ctx_Value (ctx (GET test_stdlib (WithValue Background CorrelationIDContextKey (DString ''03823a30-5bf8-4cd9-ac53-d12d18ab6d3d'')) ''http://localhost:5000/x/'')) CorrelationIDContextKey = DString ''03823a30-5bf8-4cd9-ac53-d12d18ab6d3d''
   \<and> Build test_stdlib (GET test_stdlib (WithValue Background CorrelationIDContextKey (DString ''03823a30-5bf8-4cd9-ac53-d12d18ab6d3d'')) ''http://localhost:5000/x/'') = Inr (\<lparr>rb_client = DefaultClient test_stdlib, rb_request = Some (\<lparr>req_ctx = (WithValue Background CorrelationIDContextKey (DString ''03823a30-5bf8-4cd9-ac53-d12d18ab6d3d'')), req_Method = ''GET'', req_URL = \<lparr>url_Location = ''http://localhost:5000/x/'', RawQuery = []\<rparr>, req_Header = Some [(''X-Correlation-Id'', [''03823a30-5bf8-4cd9-ac53-d12d18ab6d3d''])], req_Body = None\<rparr>), rb_response = \<lparr>resp_Response = None, resp_Body = []\<rparr>, rb_err = None\<rparr>, (GET test_stdlib (WithValue Background CorrelationIDContextKey (DString ''03823a30-5bf8-4cd9-ac53-d12d18ab6d3d'')) ''http://localhost:5000/x/''))
   \<and> map_index (headers (GET test_stdlib (WithValue Background CorrelationIDContextKey (DString ''03823a30-5bf8-4cd9-ac53-d12d18ab6d3d'')) ''http://localhost:5000/x/'')) (CanonicalMIMEHeaderKey test_stdlib CorrelationIDHeaderKey) = []
   \<and> map_index (req_Header (\<lparr>req_ctx = (WithValue Background CorrelationIDContextKey (DString ''03823a30-5bf8-4cd9-ac53-d12d18ab6d3d'')), req_Method = ''GET'', req_URL = \<lparr>url_Location = ''http://localhost:5000/x/'', RawQuery = []\<rparr>, req_Header = Some [(''X-Correlation-Id'', [''03823a30-5bf8-4cd9-ac53-d12d18ab6d3d''])], req_Body = None\<rparr>)) (CanonicalMIMEHeaderKey test_stdlib CorrelationIDHeaderKey) = [''03823a30-5bf8-4cd9-ac53-d12d18ab6d3d'']
   \<and> Header_Get test_stdlib (req_Header (\<lparr>req_ctx = (WithValue Background CorrelationIDContextKey (DString ''03823a30-5bf8-4cd9-ac53-d12d18ab6d3d'')), req_Method = ''GET'', req_URL = \<lparr>url_Location = ''http://localhost:5000/x/'', RawQuery = []\<rparr>, req_Header = Some [(''X-Correlation-Id'', [''03823a30-5bf8-4cd9-ac53-d12d18ab6d3d''])], req_Body = None\<rparr>)) CorrelationIDHeaderKey = ''03823a30-5bf8-4cd9-ac53-d12d18ab6d3d''"
proof -
  have 1: "ctx_Value (ctx (GET test_stdlib (WithValue Background CorrelationIDContextKey (DString ''03823a30-5bf8-4cd9-ac53-d12d18ab6d3d'')) ''http://localhost:5000/x/'')) CorrelationIDContextKey = DString ''03823a30-5bf8-4cd9-ac53-d12d18ab6d3d''"
    by (simp add: GET_def POST_def PATCH_def PUT_def test_stdlib_def test_json_def Header_def map_assign_def map_index_def Build_def http_NewRequest_def validMethod_def isToken_def Let_def map_len_def ctx_Value_def Background_def WithValue_def Values_Encode_def Values_Add_def CorrelationIDHeaderKey_def Header_Add_def Header_Get_def Body_def JSON_def NewBuffer_def answering_def)
  have 2: "Build test_stdlib (GET test_stdlib (WithValue Background CorrelationIDContextKey (DString ''03823a30-5bf8-4cd9-ac53-d12d18ab6d3d'')) ''http://localhost:5000/x/'') = Inr (\<lparr>rb_client = DefaultClient test_stdlib, rb_request = Some (\<lparr>req_ctx = (WithValue Background CorrelationIDContextKey (DString ''03823a30-5bf8-4cd9-ac53-d12d18ab6d3d'')), req_Method = ''GET'', req_URL = \<lparr>url_Location = ''http://localhost:5000/x/'', RawQuery = []\<rparr>, req_Header = Some [(''X-Correlation-Id'', [''03823a30-5bf8-4cd9-ac53-d12d18ab6d3d''])], req_Body = None\<rparr>), rb_response = \<lparr>resp_Response = None, resp_Body = []\<rparr>, rb_err = None\<rparr>, (GET test_stdlib (WithValue Background CorrelationIDContextKey (DString ''03823a30-5bf8-4cd9-ac53-d12d18ab6d3d'')) ''http://localhost:5000/x/''))"
    by (simp add: GET_def POST_def PATCH_def PUT_def test_stdlib_def test_json_def Header_def map_assign_def map_index_def Build_def http_NewRequest_def validMethod_def isToken_def Let_def map_len_def ctx_Value_def Background_def WithValue_def Values_Encode_def Values_Add_def CorrelationIDHeaderKey_def Header_Add_def Header_Get_def Body_def JSON_def NewBuffer_def answering_def)
  have 3: "rb_request (\<lparr>rb_client = DefaultClient test_stdlib, rb_request = Some (\<lparr>req_ctx = (WithValue Background CorrelationIDContextKey (DString ''03823a30-5bf8-4cd9-ac53-d12d18ab6d3d'')), req_Method = ''GET'', req_URL = \<lparr>url_Location = ''http://localhost:5000/x/'', RawQuery = []\<rparr>, req_Header = Some [(''X-Correlation-Id'', [''03823a30-5bf8-4cd9-ac53-d12d18ab6d3d''])], req_Body = None\<rparr>), rb_response = \<lparr>resp_Response = None, resp_Body = []\<rparr>, rb_err = None\<rparr>) = Some (\<lparr>req_ctx = (WithValue Background CorrelationIDContextKey (DString ''03823a30-5bf8-4cd9-ac53-d12d18ab6d3d'')), req_Method = ''GET'', req_URL = \<lparr>url_Location = ''http://localhost:5000/x/'', RawQuery = []\<rparr>, req_Header = Some [(''X-Correlation-Id'', [''03823a30-5bf8-4cd9-ac53-d12d18ab6d3d''])], req_Body = None\<rparr>)" by simp
  have 4: "map_index (headers (GET test_stdlib (WithValue Background CorrelationIDContextKey (DString ''03823a30-5bf8-4cd9-ac53-d12d18ab6d3d'')) ''http://localhost:5000/x/'')) (CanonicalMIMEHeaderKey test_stdlib CorrelationIDHeaderKey) = []"
    by (simp add: GET_def POST_def PATCH_def PUT_def test_stdlib_def test_json_def Header_def map_assign_def map_index_def Build_def http_NewRequest_def validMethod_def isToken_def Let_def map_len_def ctx_Value_def Background_def WithValue_def Values_Encode_def Values_Add_def CorrelationIDHeaderKey_def Header_Add_def Header_Get_def Body_def JSON_def NewBuffer_def answering_def)
  from Build_injects_correlation_id[OF 1 2 3] 4 have
    "map_index (req_Header (\<lparr>req_ctx = (WithValue Background CorrelationIDContextKey (DString ''03823a30-5bf8-4cd9-ac53-d12d18ab6d3d'')), req_Method = ''GET'', req_URL = \<lparr>url_Location = ''http://localhost:5000/x/'', RawQuery = []\<rparr>, req_Header = Some [(''X-Correlation-Id'', [''03823a30-5bf8-4cd9-ac53-d12d18ab6d3d''])], req_Body = None\<rparr>)) (CanonicalMIMEHeaderKey test_stdlib CorrelationIDHeaderKey) = [''03823a30-5bf8-4cd9-ac53-d12d18ab6d3d'']
     \<and> Header_Get test_stdlib (req_Header (\<lparr>req_ctx = (WithValue Background CorrelationIDContextKey (DString ''03823a30-5bf8-4cd9-ac53-d12d18ab6d3d'')), req_Method = ''GET'', req_URL = \<lparr>url_Location = ''http://localhost:5000/x/'', RawQuery = []\<rparr>, req_Header = Some [(''X-Correlation-Id'', [''03823a30-5bf8-4cd9-ac53-d12d18ab6d3d''])], req_Body = None\<rparr>)) CorrelationIDHeaderKey = ''03823a30-5bf8-4cd9-ac53-d12d18ab6d3d''"
    by simp
  with 1 2 4 show ?thesis by blast
qed

section \<open>The nil query map\<close>

lemma Values_AddAll_nil: "vals \<noteq> [] \<Longrightarrow> Values_AddAll None key vals = Inl AssignmentToNilMap"
  by (cases vals) (simp_all add: Values_Add_def map_assign_def)

lemma Values_Encode_empty: "map_len v = 0 \<Longrightarrow> Values_Encode escape v = []"
  by (simp add: Values_Encode_def)

lemma validMethod_verbs:
  "validMethod ''GET''" "validMethod ''POST''" "validMethod ''PATCH''" "validMethod ''PUT''"
  by (simp_all add: validMethod_def isToken_def)

text \<open>
  Claim C10, as amended. A builder made by \<^verbatim>\<open>PATCH\<close> or \<^verbatim>\<open>PUT\<close> has a nil query map,
  where \<^verbatim>\<open>GET\<close> and \<^verbatim>\<open>POST\<close> make an empty one. On such a builder \<^verbatim>\<open>Query\<close> with a
  string, or with a slice of strings that is not empty, panics with an assignment into a
  nil map; it neither records an error nor stores the value. \<^verbatim>\<open>Build\<close> on the builder
  as constructed succeeds whenever the endpoint parses, and the request's query string is
  empty.
\<close>

theorem PATCH_PUT_nil_query:
  assumes "b = PATCH env c e \<or> b = PUT env c e"
  shows "query b = None
     \<and> query (GET env c e) = Some [] \<and> query (POST env c e) = Some []
     \<and> Query key (DString val) b = Inl AssignmentToNilMap
     \<and> (vals \<noteq> [] \<longrightarrow> Query key (DStrings vals) b = Inl AssignmentToNilMap)
     \<and> (\<forall>u. url_Parse env e = Inr u \<longrightarrow>
           (\<exists>rb b' req. Build env b = Inr (rb, b') \<and> rb_err rb = None
              \<and> rb_request rb = Some req \<and> RawQuery (req_URL req) = []))"
proof -
  have q: "query b = None" using assms by (auto simp: PATCH_def PUT_def)
  have 2: "query (GET env c e) = Some [] \<and> query (POST env c e) = Some []"
    by (simp add: GET_def POST_def)
  have 3: "Query key (DString val) b = Inl AssignmentToNilMap"
    using q by (simp add: Values_Add_def map_assign_def)
  have 4: "Query key (DStrings vals) b = Inl AssignmentToNilMap" if "vals \<noteq> []"
    using q that by (simp add: Values_AddAll_nil)
  have 5: "\<exists>rb b' req. Build env b = Inr (rb, b') \<and> rb_err rb = None
             \<and> rb_request rb = Some req \<and> RawQuery (req_URL req) = []"
    if u: "url_Parse env e = Inr u" for u
  proof -
    have f: "err b = None" "endpoint b = e" "body b = None" "method b = ''PATCH'' \<or> method b = ''PUT''"
      using assms by (auto simp: PATCH_def PUT_def)
    have "\<exists>req0. http_NewRequest env (method b) (endpoint b) (body b) = Inr req0"
      using f u validMethod_verbs by (auto simp: http_NewRequest_def)
    then obtain req0 where r0: "http_NewRequest env (method b) (endpoint b) (body b) = Inr req0" ..
    from Build_request[OF f(1) r0] obtain h where
      "Build env b =
      Inr (\<lparr>rb_client = client b,
            rb_request = Some (req0\<lparr>req_ctx := ctx b, req_Header := h,
              req_URL := (req_URL req0)\<lparr>RawQuery := Values_Encode (QueryEscape env) (query b)\<rparr>\<rparr>),
            rb_response = \<lparr>resp_Response = None, resp_Body = []\<rparr>, rb_err = None\<rparr>,
           if 0 < map_len (headers b) then b\<lparr>headers := h\<rparr> else b)" by blast
    moreover have "Values_Encode (QueryEscape env) (query b) = []"
      using q by (simp add: Values_Encode_empty map_len_def)
    ultimately show ?thesis by simp
  qed
  show ?thesis using q 2 3 4 5 by blast
qed

text \<open>The theorem at a concrete input, every hypothesis discharged there.\<close>

theorem PATCH_PUT_nil_query_witness:
  "((PATCH test_stdlib Background ''http://foo.com'') = PATCH test_stdlib Background ''http://foo.com''
      \<or> (PATCH test_stdlib Background ''http://foo.com'') = PUT test_stdlib Background ''http://foo.com'')
   \<and> [''a'', ''b''] \<noteq> ([] :: string list)
   \<and> url_Parse test_stdlib ''http://foo.com'' = Inr \<lparr>url_Location = ''http://foo.com'', RawQuery = []\<rparr>
   \<and> query (PATCH test_stdlib Background ''http://foo.com'') = None
   \<and> Query ''k'' (DString ''v'') (PATCH test_stdlib Background ''http://foo.com'') = Inl AssignmentToNilMap
   \<and> Query ''k'' (DStrings [''a'', ''b'']) (PATCH test_stdlib Background ''http://foo.com'') = Inl AssignmentToNilMap
   \<and> (\<exists>rb b' req. Build test_stdlib (PATCH test_stdlib Background ''http://foo.com'') = Inr (rb, b') \<and> rb_err rb = None
              \<and> rb_request rb = Some req \<and> RawQuery (req_URL req) = [])"
proof -
  have 1: "(PATCH test_stdlib Background ''http://foo.com'') = PATCH test_stdlib Background ''http://foo.com''
      \<or> (PATCH test_stdlib Background ''http://foo.com'') = PUT test_stdlib Background ''http://foo.com''" by simp
  have 2: "[''a'', ''b''] \<noteq> ([] :: string list)" by simp
  have 3: "url_Parse test_stdlib ''http://foo.com'' = Inr \<lparr>url_Location = ''http://foo.com'', RawQuery = []\<rparr>"
    by (simp add: test_stdlib_def)
  from PATCH_PUT_nil_query[OF 1, of "''k''" "''v''" "[''a'', ''b'']"] 2 3
  have "query (PATCH test_stdlib Background ''http://foo.com'') = None
   \<and> Query ''k'' (DString ''v'') (PATCH test_stdlib Background ''http://foo.com'') = Inl AssignmentToNilMap
   \<and> Query ''k'' (DStrings [''a'', ''b'']) (PATCH test_stdlib Background ''http://foo.com'') = Inl AssignmentToNilMap
   \<and> (\<exists>rb b' req. Build test_stdlib (PATCH test_stdlib Background ''http://foo.com'') = Inr (rb, b') \<and> rb_err rb = None
              \<and> rb_request rb = Some req \<and> RawQuery (req_URL req) = [])"
    by blast
  with 1 2 3 show ?thesis by blast
qed

text \<open>
  Claim C10 as stated says that every \<^verbatim>\<open>Query\<close> call with a slice of strings panics on
  such a builder. With the empty slice the loop of \<^verbatim>\<open>Query\<close> runs no iteration, nothing
  is assigned, and the builder comes back unchanged.
\<close>

theorem Query_empty_slice_no_panic:
  "query (PATCH test_stdlib Background ''http://foo.com'') = None
   \<and> Query ''k'' (DStrings []) (PATCH test_stdlib Background ''http://foo.com'')
       = Inr (PATCH test_stdlib Background ''http://foo.com'')"
  by (simp add: PATCH_def)

section \<open>The sticky error\<close>

lemma Query_err: "Query key val b = Inr b' \<Longrightarrow> err b' = err b"
  by (cases val) (auto split: sum.splits)

lemma JSON_error_noop: "err b = Some e \<Longrightarrow> JSON codec v b = b"
  by (simp add: JSON_def)

lemma apply_call_sticky:
  "err b = Some e \<Longrightarrow> apply_call codec c b = Inr b' \<Longrightarrow> err b' = Some e"
  by (cases c) (auto simp: Header_fields(3) Query_err Body_def JSON_error_noop)

lemma chain_sticky:
  "err b = Some e \<Longrightarrow> chain codec cs b = Inr b' \<Longrightarrow> err b' = Some e"
proof (induction cs arbitrary: b)
  case Nil
  then show ?case by simp
next
  case (Cons c cs)
  then obtain b1 where 1: "apply_call codec c b = Inr b1" and 2: "chain codec cs b1 = Inr b'"
    by (auto split: sum.splits)
  from apply_call_sticky[OF Cons.prems(1) 1] Cons.IH[OF _ 2] show ?case by simp
qed

lemma makeRequest_error: "rb_err rb = Some e \<Longrightarrow> makeRequest rb w = Inr (rb, w)"
  by (simp add: makeRequest_def)

lemma Send_error:
  assumes "err b = Some e"
  shows "Send env b w =
     Inr ((\<lparr>resp_Response = None, resp_Body = []\<rparr>, Some (WithStack (WithStack e))), w)"
  by (simp add: Send_def Build_error[OF assms] makeRequest_error)

text \<open>
  Claim C1, as amended. Let an error be recorded on a builder, and let a chain of later
  \<^verbatim>\<open>Header\<close>, \<^verbatim>\<open>Query\<close>, \<^verbatim>\<open>Body\<close> and \<^verbatim>\<open>JSON\<close> calls run to its end. The builder that
  comes back holds the same error. \<^verbatim>\<open>JSON\<close> changes nothing on a builder with an error;
  \<^verbatim>\<open>Header\<close> and \<^verbatim>\<open>Query\<close> have no check of the error and store into the header map and
  the query map as they always do. \<^verbatim>\<open>Build\<close> on the builder that comes back returns the
  recorded error and builds no request, \<^verbatim>\<open>Request\<close> returns that error and no request,
  and \<^verbatim>\<open>Send\<close> returns it with an empty response and leaves the world as it was: no
  request is handed to the transport.
\<close>

theorem sticky_error:
  assumes "err b = Some e" and "chain codec calls b = Inr b'"
  shows "err b' = Some e
     \<and> JSON codec v b = b
     \<and> Build env b' = Inr (\<lparr>rb_client = client b', rb_request = None,
                              rb_response = \<lparr>resp_Response = None, resp_Body = []\<rparr>,
                              rb_err = Some (WithStack e)\<rparr>, b')
     \<and> Request_of env b' = Inr ((None, Some (WithStack (WithStack e))), b')
     \<and> Send env b' w =
         Inr ((\<lparr>resp_Response = None, resp_Body = []\<rparr>, Some (WithStack (WithStack e))), w)"
proof -
  have e': "err b' = Some e" using chain_sticky[OF assms] .
  show ?thesis
    using e' JSON_error_noop[OF assms(1)] Build_error[OF e'] Send_error[OF e']
    by (simp add: Request_of_def)
qed

text \<open>The theorem at a concrete input, every hypothesis discharged there.\<close>

theorem sticky_error_witness:
  "err ((GET test_stdlib Background ''http://foo.com'')\<lparr>err := Some (LibraryError ''some error'')\<rparr>) = Some (LibraryError ''some error'')
   \<and> chain test_json [CallHeader ''k'' ''v'', CallQuery ''q'' (DString ''1''), CallBody (Some (NewBuffer [1])), CallJSON [0x78]] ((GET test_stdlib Background ''http://foo.com'')\<lparr>err := Some (LibraryError ''some error'')\<rparr>) = Inr ((GET test_stdlib Background ''http://foo.com'')\<lparr>err := Some (LibraryError ''some error''), headers := Some [(''k'', [''v''])], query := Some [(''q'', [''1''])], body := Some (NewBuffer [1])\<rparr>)
   \<and> err ((GET test_stdlib Background ''http://foo.com'')\<lparr>err := Some (LibraryError ''some error''), headers := Some [(''k'', [''v''])], query := Some [(''q'', [''1''])], body := Some (NewBuffer [1])\<rparr>) = Some (LibraryError ''some error'')
   \<and> JSON test_json [0x78] ((GET test_stdlib Background ''http://foo.com'')\<lparr>err := Some (LibraryError ''some error'')\<rparr>) = ((GET test_stdlib Background ''http://foo.com'')\<lparr>err := Some (LibraryError ''some error'')\<rparr>)
   \<and> Request_of test_stdlib ((GET test_stdlib Background ''http://foo.com'')\<lparr>err := Some (LibraryError ''some error''), headers := Some [(''k'', [''v''])], query := Some [(''q'', [''1''])], body := Some (NewBuffer [1])\<rparr>) = Inr ((None, Some (WithStack (WithStack (LibraryError ''some error'')))), ((GET test_stdlib Background ''http://foo.com'')\<lparr>err := Some (LibraryError ''some error''), headers := Some [(''k'', [''v''])], query := Some [(''q'', [''1''])], body := Some (NewBuffer [1])\<rparr>))
   \<and> Send test_stdlib ((GET test_stdlib Background ''http://foo.com'')\<lparr>err := Some (LibraryError ''some error''), headers := Some [(''k'', [''v''])], query := Some [(''q'', [''1''])], body := Some (NewBuffer [1])\<rparr>) \<lparr>beforeEachInterceptors = [], wire = []\<rparr>
        = Inr ((\<lparr>resp_Response = None, resp_Body = []\<rparr>, Some (WithStack (WithStack (LibraryError ''some error'')))), \<lparr>beforeEachInterceptors = [], wire = []\<rparr>)"
proof -
  have 1: "err ((GET test_stdlib Background ''http://foo.com'')\<lparr>err := Some (LibraryError ''some error'')\<rparr>) = Some (LibraryError ''some error'')" by simp
  have 2: "chain test_json [CallHeader ''k'' ''v'', CallQuery ''q'' (DString ''1''), CallBody (Some (NewBuffer [1])), CallJSON [0x78]] ((GET test_stdlib Background ''http://foo.com'')\<lparr>err := Some (LibraryError ''some error'')\<rparr>) = Inr ((GET test_stdlib Background ''http://foo.com'')\<lparr>err := Some (LibraryError ''some error''), headers := Some [(''k'', [''v''])], query := Some [(''q'', [''1''])], body := Some (NewBuffer [1])\<rparr>)"
    by (simp add: GET_def Header_def map_assign_def map_index_def Values_Add_def Body_def JSON_def)
  from sticky_error[OF 1 2, of "[0x78]" test_stdlib "\<lparr>beforeEachInterceptors = [], wire = []\<rparr>"] have
    "err ((GET test_stdlib Background ''http://foo.com'')\<lparr>err := Some (LibraryError ''some error''), headers := Some [(''k'', [''v''])], query := Some [(''q'', [''1''])], body := Some (NewBuffer [1])\<rparr>) = Some (LibraryError ''some error'')
     \<and> JSON test_json [0x78] ((GET test_stdlib Background ''http://foo.com'')\<lparr>err := Some (LibraryError ''some error'')\<rparr>) = ((GET test_stdlib Background ''http://foo.com'')\<lparr>err := Some (LibraryError ''some error'')\<rparr>)
     \<and> Request_of test_stdlib ((GET test_stdlib Background ''http://foo.com'')\<lparr>err := Some (LibraryError ''some error''), headers := Some [(''k'', [''v''])], query := Some [(''q'', [''1''])], body := Some (NewBuffer [1])\<rparr>) = Inr ((None, Some (WithStack (WithStack (LibraryError ''some error'')))), ((GET test_stdlib Background ''http://foo.com'')\<lparr>err := Some (LibraryError ''some error''), headers := Some [(''k'', [''v''])], query := Some [(''q'', [''1''])], body := Some (NewBuffer [1])\<rparr>))
     \<and> Send test_stdlib ((GET test_stdlib Background ''http://foo.com'')\<lparr>err := Some (LibraryError ''some error''), headers := Some [(''k'', [''v''])], query := Some [(''q'', [''1''])], body := Some (NewBuffer [1])\<rparr>) \<lparr>beforeEachInterceptors = [], wire = []\<rparr>
          = Inr ((\<lparr>resp_Response = None, resp_Body = []\<rparr>, Some (WithStack (WithStack (LibraryError ''some error'')))), \<lparr>beforeEachInterceptors = [], wire = []\<rparr>)"
    by blast
  with 1 2 show ?thesis by blast
qed

text \<open>
  Claim C1 as stated says that every call after an error is a no-op. On a \<^verbatim>\<open>GET\<close> builder
  with a recorded error, \<^verbatim>\<open>Header\<close> still adds to the header map and \<^verbatim>\<open>Query\<close> still adds
  to the query map: both maps were empty before the call and hold an entry after it.
\<close>

theorem sticky_error_counterexample:
  "err ((GET test_stdlib Background ''http://foo.com'')\<lparr>err := Some (LibraryError ''some error'')\<rparr>)
     = Some (LibraryError ''some error'')
   \<and> Header ''k'' ''v''
       ((GET test_stdlib Background ''http://foo.com'')\<lparr>err := Some (LibraryError ''some error'')\<rparr>)
     = Inr ((GET test_stdlib Background ''http://foo.com'')
              \<lparr>err := Some (LibraryError ''some error''), headers := Some [(''k'', [''v''])]\<rparr>)
   \<and> headers ((GET test_stdlib Background ''http://foo.com'')
                 \<lparr>err := Some (LibraryError ''some error'')\<rparr>) = Some []
   \<and> Query ''q'' (DString ''1'')
       ((GET test_stdlib Background ''http://foo.com'')\<lparr>err := Some (LibraryError ''some error'')\<rparr>)
     = Inr ((GET test_stdlib Background ''http://foo.com'')
              \<lparr>err := Some (LibraryError ''some error''), query := Some [(''q'', [''1''])]\<rparr>)
   \<and> query ((GET test_stdlib Background ''http://foo.com'')
                 \<lparr>err := Some (LibraryError ''some error'')\<rparr>) = Some []"
  by (simp add: GET_def Header_def Values_Add_def map_assign_def map_index_def)

section \<open>The round trip\<close>

lemma makeRequest_completed:
  assumes "rb_err rb = None" and "rb_request rb = Some req0"
    and "rb_client rb (fold (\<lambda>interceptor r. interceptor r) (beforeEachInterceptors w) req0)
           = (Some resp, None)"
  shows "makeRequest rb w =
     Inr (rb\<lparr>rb_request := Some (fold (\<lambda>interceptor r. interceptor r) (beforeEachInterceptors w) req0),
             rb_response := \<lparr>resp_Response =
                                Some (resp\<lparr>hr_Body := (hr_Body resp)\<lparr>pending := [], closed := True\<rparr>\<rparr>),
                              resp_Body = pending (hr_Body resp)\<rparr>,
             rb_err := (if StatusCode resp < 200 \<or> 299 < StatusCode resp
                        then Some (Wrapf ErrUnexpectedResponseStatus ''got status %d'' (StatusCode resp))
                        else None)\<rparr>,
          w\<lparr>wire := wire w @ [fold (\<lambda>interceptor r. interceptor r) (beforeEachInterceptors w) req0]\<rparr>)"
  using assms by (simp add: makeRequest_def Let_def ReadAll_def Close_def)

lemma Send_completed:
  assumes "Build env b = Inr (rb, b')" and "rb_request rb = Some req"
    and "client b (fold (\<lambda>interceptor r. interceptor r) (beforeEachInterceptors w) req)
           = (Some resp, None)"
  shows "Send env b w =
     Inr ((\<lparr>resp_Response =
              Some (resp\<lparr>hr_Body := (hr_Body resp)\<lparr>pending := [], closed := True\<rparr>\<rparr>),
            resp_Body = pending (hr_Body resp)\<rparr>,
           if StatusCode resp < 200 \<or> 299 < StatusCode resp
           then Some (WithStack (Wrapf ErrUnexpectedResponseStatus ''got status %d'' (StatusCode resp)))
           else None),
          w\<lparr>wire := wire w @ [fold (\<lambda>interceptor r. interceptor r) (beforeEachInterceptors w) req]\<rparr>)"
proof -
  have c: "rb_client rb = client b" and e: "rb_err rb = None"
    using Build_built(2,3)[OF assms(1,2)] by simp_all
  show ?thesis
    using makeRequest_completed[OF e assms(2), of w resp] assms(3) c
    by (simp add: Send_def assms(1))
qed

text \<open>
  Claim C3. Let \<^verbatim>\<open>Build\<close> make a request and let the transport answer it, after the
  interceptors, with a response and no error. Then \<^verbatim>\<open>Send\<close> returns, and the error it
  returns is an \<^verbatim>\<open>ErrUnexpectedResponseStatus\<close> (by \<^verbatim>\<open>errors.Is\<close>) if and only if the
  status code is below 200 or above 299. In particular it is one for the status codes
  103 and 300.
\<close>

theorem Send_unexpected_status_iff:
  assumes "Build env b = Inr (rb, b')" and "rb_request rb = Some req"
    and "client b (fold (\<lambda>interceptor r. interceptor r) (beforeEachInterceptors w) req)
           = (Some resp, None)"
  shows "\<exists>response e w'. Send env b w = Inr ((response, e), w')
     \<and> ((\<exists>x. e = Some x \<and> errors_Is x ErrUnexpectedResponseStatus)
          \<longleftrightarrow> (StatusCode resp < 200 \<or> 299 < StatusCode resp))
     \<and> (StatusCode resp = 103 \<or> StatusCode resp = 300
          \<longrightarrow> (\<exists>x. e = Some x \<and> errors_Is x ErrUnexpectedResponseStatus))"
  using Send_completed[OF assms] by auto

text \<open>The theorem at a concrete input, every hypothesis discharged there.\<close>

theorem Send_unexpected_status_iff_witness:
  "(Build (test_stdlib\<lparr>DefaultClient := answering 103 []\<rparr>) (GET (test_stdlib\<lparr>DefaultClient := answering 103 []\<rparr>) Background ''http://foo.com'') = Inr (\<lparr>rb_client = answering 103 [], rb_request = Some (\<lparr>req_ctx = Background, req_Method = ''GET'', req_URL = \<lparr>url_Location = ''http://foo.com'', RawQuery = []\<rparr>, req_Header = Some [], req_Body = None\<rparr>), rb_response = \<lparr>resp_Response = None, resp_Body = []\<rparr>, rb_err = None\<rparr>, (GET (test_stdlib\<lparr>DefaultClient := answering 103 []\<rparr>) Background ''http://foo.com''))
   \<and> client (GET (test_stdlib\<lparr>DefaultClient := answering 103 []\<rparr>) Background ''http://foo.com'') (fold (\<lambda>interceptor r. interceptor r) (beforeEachInterceptors \<lparr>beforeEachInterceptors = [], wire = []\<rparr>) (\<lparr>req_ctx = Background, req_Method = ''GET'', req_URL = \<lparr>url_Location = ''http://foo.com'', RawQuery = []\<rparr>, req_Header = Some [], req_Body = None\<rparr>))
           = (Some \<lparr>StatusCode = 103, hr_Body = NewBuffer []\<rparr>, None)
   \<and> (\<exists>response x w'. Send (test_stdlib\<lparr>DefaultClient := answering 103 []\<rparr>) (GET (test_stdlib\<lparr>DefaultClient := answering 103 []\<rparr>) Background ''http://foo.com'') \<lparr>beforeEachInterceptors = [], wire = []\<rparr> = Inr ((response, Some x), w')
         \<and> errors_Is x ErrUnexpectedResponseStatus))
   \<and> (Build (test_stdlib\<lparr>DefaultClient := answering 300 []\<rparr>) (GET (test_stdlib\<lparr>DefaultClient := answering 300 []\<rparr>) Background ''http://foo.com'') = Inr (\<lparr>rb_client = answering 300 [], rb_request = Some (\<lparr>req_ctx = Background, req_Method = ''GET'', req_URL = \<lparr>url_Location = ''http://foo.com'', RawQuery = []\<rparr>, req_Header = Some [], req_Body = None\<rparr>), rb_response = \<lparr>resp_Response = None, resp_Body = []\<rparr>, rb_err = None\<rparr>, (GET (test_stdlib\<lparr>DefaultClient := answering 300 []\<rparr>) Background ''http://foo.com''))
   \<and> client (GET (test_stdlib\<lparr>DefaultClient := answering 300 []\<rparr>) Background ''http://foo.com'') (fold (\<lambda>interceptor r. interceptor r) (beforeEachInterceptors \<lparr>beforeEachInterceptors = [], wire = []\<rparr>) (\<lparr>req_ctx = Background, req_Method = ''GET'', req_URL = \<lparr>url_Location = ''http://foo.com'', RawQuery = []\<rparr>, req_Header = Some [], req_Body = None\<rparr>))
           = (Some \<lparr>StatusCode = 300, hr_Body = NewBuffer []\<rparr>, None)
   \<and> (\<exists>response x w'. Send (test_stdlib\<lparr>DefaultClient := answering 300 []\<rparr>) (GET (test_stdlib\<lparr>DefaultClient := answering 300 []\<rparr>) Background ''http://foo.com'') \<lparr>beforeEachInterceptors = [], wire = []\<rparr> = Inr ((response, Some x), w')
         \<and> errors_Is x ErrUnexpectedResponseStatus))"
proof -
  have a1: "Build (test_stdlib\<lparr>DefaultClient := answering 103 []\<rparr>) (GET (test_stdlib\<lparr>DefaultClient := answering 103 []\<rparr>) Background ''http://foo.com'') = Inr (\<lparr>rb_client = answering 103 [], rb_request = Some (\<lparr>req_ctx = Background, req_Method = ''GET'', req_URL = \<lparr>url_Location = ''http://foo.com'', RawQuery = []\<rparr>, req_Header = Some [], req_Body = None\<rparr>), rb_response = \<lparr>resp_Response = None, resp_Body = []\<rparr>, rb_err = None\<rparr>, (GET (test_stdlib\<lparr>DefaultClient := answering 103 []\<rparr>) Background ''http://foo.com''))"
    by (simp add: GET_def POST_def PATCH_def PUT_def test_stdlib_def test_json_def Header_def map_assign_def map_index_def Build_def http_NewRequest_def validMethod_def isToken_def Let_def map_len_def ctx_Value_def Background_def WithValue_def Values_Encode_def Values_Add_def CorrelationIDHeaderKey_def Header_Add_def Header_Get_def Body_def JSON_def NewBuffer_def answering_def)
  have b1: "rb_request (\<lparr>rb_client = answering 103 [], rb_request = Some (\<lparr>req_ctx = Background, req_Method = ''GET'', req_URL = \<lparr>url_Location = ''http://foo.com'', RawQuery = []\<rparr>, req_Header = Some [], req_Body = None\<rparr>), rb_response = \<lparr>resp_Response = None, resp_Body = []\<rparr>, rb_err = None\<rparr>) = Some (\<lparr>req_ctx = Background, req_Method = ''GET'', req_URL = \<lparr>url_Location = ''http://foo.com'', RawQuery = []\<rparr>, req_Header = Some [], req_Body = None\<rparr>)" by simp
  have c1: "client (GET (test_stdlib\<lparr>DefaultClient := answering 103 []\<rparr>) Background ''http://foo.com'') (fold (\<lambda>interceptor r. interceptor r) (beforeEachInterceptors \<lparr>beforeEachInterceptors = [], wire = []\<rparr>) (\<lparr>req_ctx = Background, req_Method = ''GET'', req_URL = \<lparr>url_Location = ''http://foo.com'', RawQuery = []\<rparr>, req_Header = Some [], req_Body = None\<rparr>))
           = (Some \<lparr>StatusCode = 103, hr_Body = NewBuffer []\<rparr>, None)"
    by (simp add: GET_def POST_def PATCH_def PUT_def test_stdlib_def test_json_def Header_def map_assign_def map_index_def Build_def http_NewRequest_def validMethod_def isToken_def Let_def map_len_def ctx_Value_def Background_def WithValue_def Values_Encode_def Values_Add_def CorrelationIDHeaderKey_def Header_Add_def Header_Get_def Body_def JSON_def NewBuffer_def answering_def)
  have a2: "Build (test_stdlib\<lparr>DefaultClient := answering 300 []\<rparr>) (GET (test_stdlib\<lparr>DefaultClient := answering 300 []\<rparr>) Background ''http://foo.com'') = Inr (\<lparr>rb_client = answering 300 [], rb_request = Some (\<lparr>req_ctx = Background, req_Method = ''GET'', req_URL = \<lparr>url_Location = ''http://foo.com'', RawQuery = []\<rparr>, req_Header = Some [], req_Body = None\<rparr>), rb_response = \<lparr>resp_Response = None, resp_Body = []\<rparr>, rb_err = None\<rparr>, (GET (test_stdlib\<lparr>DefaultClient := answering 300 []\<rparr>) Background ''http://foo.com''))"
    by (simp add: GET_def POST_def PATCH_def PUT_def test_stdlib_def test_json_def Header_def map_assign_def map_index_def Build_def http_NewRequest_def validMethod_def isToken_def Let_def map_len_def ctx_Value_def Background_def WithValue_def Values_Encode_def Values_Add_def CorrelationIDHeaderKey_def Header_Add_def Header_Get_def Body_def JSON_def NewBuffer_def answering_def)
  have b2: "rb_request (\<lparr>rb_client = answering 300 [], rb_request = Some (\<lparr>req_ctx = Background, req_Method = ''GET'', req_URL = \<lparr>url_Location = ''http://foo.com'', RawQuery = []\<rparr>, req_Header = Some [], req_Body = None\<rparr>), rb_response = \<lparr>resp_Response = None, resp_Body = []\<rparr>, rb_err = None\<rparr>) = Some (\<lparr>req_ctx = Background, req_Method = ''GET'', req_URL = \<lparr>url_Location = ''http://foo.com'', RawQuery = []\<rparr>, req_Header = Some [], req_Body = None\<rparr>)" by simp
  have c2: "client (GET (test_stdlib\<lparr>DefaultClient := answering 300 []\<rparr>) Background ''http://foo.com'') (fold (\<lambda>interceptor r. interceptor r) (beforeEachInterceptors \<lparr>beforeEachInterceptors = [], wire = []\<rparr>) (\<lparr>req_ctx = Background, req_Method = ''GET'', req_URL = \<lparr>url_Location = ''http://foo.com'', RawQuery = []\<rparr>, req_Header = Some [], req_Body = None\<rparr>))
           = (Some \<lparr>StatusCode = 300, hr_Body = NewBuffer []\<rparr>, None)"
    by (simp add: GET_def POST_def PATCH_def PUT_def test_stdlib_def test_json_def Header_def map_assign_def map_index_def Build_def http_NewRequest_def validMethod_def isToken_def Let_def map_len_def ctx_Value_def Background_def WithValue_def Values_Encode_def Values_Add_def CorrelationIDHeaderKey_def Header_Add_def Header_Get_def Body_def JSON_def NewBuffer_def answering_def)
  from Send_unexpected_status_iff[OF a1 b1 c1] have d1:
    "\<exists>response x w'. Send (test_stdlib\<lparr>DefaultClient := answering 103 []\<rparr>) (GET (test_stdlib\<lparr>DefaultClient := answering 103 []\<rparr>) Background ''http://foo.com'') \<lparr>beforeEachInterceptors = [], wire = []\<rparr> = Inr ((response, Some x), w')
         \<and> errors_Is x ErrUnexpectedResponseStatus"
    by auto
  from Send_unexpected_status_iff[OF a2 b2 c2] have d2:
    "\<exists>response x w'. Send (test_stdlib\<lparr>DefaultClient := answering 300 []\<rparr>) (GET (test_stdlib\<lparr>DefaultClient := answering 300 []\<rparr>) Background ''http://foo.com'') \<lparr>beforeEachInterceptors = [], wire = []\<rparr> = Inr ((response, Some x), w')
         \<and> errors_Is x ErrUnexpectedResponseStatus"
    by auto
  from a1 c1 d1 a2 c2 d2 show ?thesis by blast
qed

text \<open>
  Claim C4. When the round trip completes with a status code below 200 or above 299,
  \<^verbatim>\<open>Send\<close> returns, beside the \<^verbatim>\<open>ErrUnexpectedResponseStatus\<close> error, the response: its
  \<^verbatim>\<open>Body\<close> field (and so \<^verbatim>\<open>Bytes\<close>) holds all the bytes the response stream had to
  deliver, and the embedded \<^verbatim>\<open>http.Response\<close> is the transport's, with its status code,
  its stream read to the end and closed.
\<close>

theorem Send_unexpected_status_keeps_response:
  assumes "Build env b = Inr (rb, b')" and "rb_request rb = Some req"
    and "client b (fold (\<lambda>interceptor r. interceptor r) (beforeEachInterceptors w) req)
           = (Some resp, None)"
    and "StatusCode resp < 200 \<or> 299 < StatusCode resp"
  shows "\<exists>response e w'. Send env b w = Inr ((response, Some e), w')
     \<and> errors_Is e ErrUnexpectedResponseStatus
     \<and> resp_Body response = pending (hr_Body resp)
     \<and> Bytes response = pending (hr_Body resp)
     \<and> resp_Response response =
         Some (resp\<lparr>hr_Body := (hr_Body resp)\<lparr>pending := [], closed := True\<rparr>\<rparr>)
     \<and> (\<exists>r. resp_Response response = Some r \<and> StatusCode r = StatusCode resp
            \<and> pending (hr_Body r) = [] \<and> closed (hr_Body r))"
  using Send_completed[OF assms(1,2,3)] assms(4) by (auto simp: Bytes_def)

text \<open>The theorem at a concrete input, every hypothesis discharged there.\<close>

theorem Send_unexpected_status_keeps_response_witness:
  "Build (test_stdlib\<lparr>DefaultClient := answering 404 [0x6E, 0x6F]\<rparr>) (GET (test_stdlib\<lparr>DefaultClient := answering 404 [0x6E, 0x6F]\<rparr>) Background ''http://foo.com'') = Inr (\<lparr>rb_client = answering 404 [0x6E, 0x6F], rb_request = Some (\<lparr>req_ctx = Background, req_Method = ''GET'', req_URL = \<lparr>url_Location = ''http://foo.com'', RawQuery = []\<rparr>, req_Header = Some [], req_Body = None\<rparr>), rb_response = \<lparr>resp_Response = None, resp_Body = []\<rparr>, rb_err = None\<rparr>, (GET (test_stdlib\<lparr>DefaultClient := answering 404 [0x6E, 0x6F]\<rparr>) Background ''http://foo.com''))
   \<and> client (GET (test_stdlib\<lparr>DefaultClient := answering 404 [0x6E, 0x6F]\<rparr>) Background ''http://foo.com'') (fold (\<lambda>interceptor r. interceptor r) (beforeEachInterceptors \<lparr>beforeEachInterceptors = [], wire = []\<rparr>) (\<lparr>req_ctx = Background, req_Method = ''GET'', req_URL = \<lparr>url_Location = ''http://foo.com'', RawQuery = []\<rparr>, req_Header = Some [], req_Body = None\<rparr>))
           = (Some \<lparr>StatusCode = 404, hr_Body = NewBuffer [0x6E, 0x6F]\<rparr>, None)
   \<and> (StatusCode \<lparr>StatusCode = 404, hr_Body = NewBuffer [0x6E, 0x6F]\<rparr> < 200 \<or> 299 < StatusCode \<lparr>StatusCode = 404, hr_Body = NewBuffer [0x6E, 0x6F]\<rparr>)
   \<and> (\<exists>response e w' r. Send (test_stdlib\<lparr>DefaultClient := answering 404 [0x6E, 0x6F]\<rparr>) (GET (test_stdlib\<lparr>DefaultClient := answering 404 [0x6E, 0x6F]\<rparr>) Background ''http://foo.com'') \<lparr>beforeEachInterceptors = [], wire = []\<rparr> = Inr ((response, Some e), w')
         \<and> errors_Is e ErrUnexpectedResponseStatus
         \<and> resp_Body response = [0x6E, 0x6F]
         \<and> resp_Response response = Some r \<and> StatusCode r = 404
         \<and> pending (hr_Body r) = [] \<and> closed (hr_Body r))"
proof -
  have a1: "Build (test_stdlib\<lparr>DefaultClient := answering 404 [0x6E, 0x6F]\<rparr>) (GET (test_stdlib\<lparr>DefaultClient := answering 404 [0x6E, 0x6F]\<rparr>) Background ''http://foo.com'') = Inr (\<lparr>rb_client = answering 404 [0x6E, 0x6F], rb_request = Some (\<lparr>req_ctx = Background, req_Method = ''GET'', req_URL = \<lparr>url_Location = ''http://foo.com'', RawQuery = []\<rparr>, req_Header = Some [], req_Body = None\<rparr>), rb_response = \<lparr>resp_Response = None, resp_Body = []\<rparr>, rb_err = None\<rparr>, (GET (test_stdlib\<lparr>DefaultClient := answering 404 [0x6E, 0x6F]\<rparr>) Background ''http://foo.com''))"
    by (simp add: GET_def POST_def PATCH_def PUT_def test_stdlib_def test_json_def Header_def map_assign_def map_index_def Build_def http_NewRequest_def validMethod_def isToken_def Let_def map_len_def ctx_Value_def Background_def WithValue_def Values_Encode_def Values_Add_def CorrelationIDHeaderKey_def Header_Add_def Header_Get_def Body_def JSON_def NewBuffer_def answering_def)
  have b1: "rb_request (\<lparr>rb_client = answering 404 [0x6E, 0x6F], rb_request = Some (\<lparr>req_ctx = Background, req_Method = ''GET'', req_URL = \<lparr>url_Location = ''http://foo.com'', RawQuery = []\<rparr>, req_Header = Some [], req_Body = None\<rparr>), rb_response = \<lparr>resp_Response = None, resp_Body = []\<rparr>, rb_err = None\<rparr>) = Some (\<lparr>req_ctx = Background, req_Method = ''GET'', req_URL = \<lparr>url_Location = ''http://foo.com'', RawQuery = []\<rparr>, req_Header = Some [], req_Body = None\<rparr>)" by simp
  have c1: "client (GET (test_stdlib\<lparr>DefaultClient := answering 404 [0x6E, 0x6F]\<rparr>) Background ''http://foo.com'') (fold (\<lambda>interceptor r. interceptor r) (beforeEachInterceptors \<lparr>beforeEachInterceptors = [], wire = []\<rparr>) (\<lparr>req_ctx = Background, req_Method = ''GET'', req_URL = \<lparr>url_Location = ''http://foo.com'', RawQuery = []\<rparr>, req_Header = Some [], req_Body = None\<rparr>))
           = (Some \<lparr>StatusCode = 404, hr_Body = NewBuffer [0x6E, 0x6F]\<rparr>, None)"
    by (simp add: GET_def POST_def PATCH_def PUT_def test_stdlib_def test_json_def Header_def map_assign_def map_index_def Build_def http_NewRequest_def validMethod_def isToken_def Let_def map_len_def ctx_Value_def Background_def WithValue_def Values_Encode_def Values_Add_def CorrelationIDHeaderKey_def Header_Add_def Header_Get_def Body_def JSON_def NewBuffer_def answering_def)
  have d1: "StatusCode \<lparr>StatusCode = 404, hr_Body = NewBuffer [0x6E, 0x6F]\<rparr> < 200 \<or> 299 < StatusCode \<lparr>StatusCode = 404, hr_Body = NewBuffer [0x6E, 0x6F]\<rparr>" by simp
  from Send_unexpected_status_keeps_response[OF a1 b1 c1 d1] have
    "\<exists>response e w' r. Send (test_stdlib\<lparr>DefaultClient := answering 404 [0x6E, 0x6F]\<rparr>) (GET (test_stdlib\<lparr>DefaultClient := answering 404 [0x6E, 0x6F]\<rparr>) Background ''http://foo.com'') \<lparr>beforeEachInterceptors = [], wire = []\<rparr> = Inr ((response, Some e), w')
         \<and> errors_Is e ErrUnexpectedResponseStatus
         \<and> resp_Body response = [0x6E, 0x6F]
         \<and> resp_Response response = Some r \<and> StatusCode r = 404
         \<and> pending (hr_Body r) = [] \<and> closed (hr_Body r)"
    by (auto simp: NewBuffer_def)
  with a1 c1 d1 show ?thesis by blast
qed

section \<open>JSON bodies\<close>

lemma test_json_hello:
  "Marshal test_json [0x68, 0x65, 0x6C, 0x6C, 0x6F] = Inr [0x22, 0x68, 0x65, 0x6C, 0x6C, 0x6F, 0x22]"
  "Unmarshal test_json [0x22, 0x68, 0x65, 0x6C, 0x6C, 0x6F, 0x22] = Inr [0x68, 0x65, 0x6C, 0x6C, 0x6F]"
  by (simp_all add: test_json_def)

text \<open>
  Claim C7, as amended. Let \<^verbatim>\<open>JSON(v)\<close> be called on a builder without an error, for a
  value \<open>v\<close> that \<^verbatim>\<open>json.Marshal\<close> accepts, with the bytes \<open>out\<close>. The builder's body is
  a buffer over exactly \<open>out\<close>, and so is the body of the request that \<^verbatim>\<open>Build\<close> then
  makes: reading that body to the end gives \<open>out\<close> and no read error. Decoding what was
  read, with \<^verbatim>\<open>json.Unmarshal\<close> or with \<^verbatim>\<open>Response.JSON\<close>, therefore gives what the library
  gives on its own encoding of \<open>v\<close>: it yields \<open>v\<close> exactly when the library's decoding of
  its encoding of \<open>v\<close> does. Nothing is assumed of the codec.
\<close>

theorem JSON_round_trip:
  assumes "err b = None"
    and "Marshal codec v = Inr out"
    and "Build env (JSON codec v b) = Inr (rb, b')"
    and "rb_request rb = Some req"
  shows "body (JSON codec v b) = Some (NewBuffer out)
     \<and> (\<exists>s. req_Body req = Some s
           \<and> fst (ReadAll s) = (out, None)
           \<and> Unmarshal codec (fst (fst (ReadAll s))) = Unmarshal codec out
           \<and> Response_JSON codec \<lparr>resp_Response = r, resp_Body = fst (fst (ReadAll s))\<rparr>
               = Unmarshal codec out
           \<and> ((Unmarshal codec (fst (fst (ReadAll s))) = Inr v) = (Unmarshal codec out = Inr v)))"
proof -
  have 1: "body (JSON codec v b) = Some (NewBuffer out)"
    using assms(1,2) by (simp add: JSON_def Body_def)
  have 2: "req_Body req = Some (NewBuffer out)"
    using Build_built(4)[OF assms(3,4)] 1 by simp
  have 3: "fst (ReadAll (NewBuffer out)) = (out, None)"
    by (simp add: ReadAll_def NewBuffer_def)
  show ?thesis
    using 1 2 3 by (simp add: Response_JSON_def)
qed

text \<open>The theorem at a concrete input, every hypothesis discharged there.\<close>

theorem JSON_round_trip_witness:
  "err (POST test_stdlib Background ''http://foo.com'') = None
   \<and> Marshal test_json [0x68, 0x65, 0x6C, 0x6C, 0x6F] = Inr [0x22, 0x68, 0x65, 0x6C, 0x6C, 0x6F, 0x22]
   \<and> Build test_stdlib (JSON test_json [0x68, 0x65, 0x6C, 0x6C, 0x6F] (POST test_stdlib Background ''http://foo.com'')) = Inr (\<lparr>rb_client = DefaultClient test_stdlib, rb_request = Some (\<lparr>req_ctx = Background, req_Method = ''POST'', req_URL = \<lparr>url_Location = ''http://foo.com'', RawQuery = []\<rparr>, req_Header = Some [], req_Body = Some (NewBuffer [0x22, 0x68, 0x65, 0x6C, 0x6C, 0x6F, 0x22])\<rparr>), rb_response = \<lparr>resp_Response = None, resp_Body = []\<rparr>, rb_err = None\<rparr>, JSON test_json [0x68, 0x65, 0x6C, 0x6C, 0x6F] (POST test_stdlib Background ''http://foo.com''))
   \<and> body (JSON test_json [0x68, 0x65, 0x6C, 0x6C, 0x6F] (POST test_stdlib Background ''http://foo.com'')) = Some (NewBuffer [0x22, 0x68, 0x65, 0x6C, 0x6C, 0x6F, 0x22])
   \<and> (\<exists>s. req_Body (\<lparr>req_ctx = Background, req_Method = ''POST'', req_URL = \<lparr>url_Location = ''http://foo.com'', RawQuery = []\<rparr>, req_Header = Some [], req_Body = Some (NewBuffer [0x22, 0x68, 0x65, 0x6C, 0x6C, 0x6F, 0x22])\<rparr>) = Some s
         \<and> fst (ReadAll s) = ([0x22, 0x68, 0x65, 0x6C, 0x6C, 0x6F, 0x22], None)
         \<and> Unmarshal test_json (fst (fst (ReadAll s))) = Inr [0x68, 0x65, 0x6C, 0x6C, 0x6F])"
proof -
  have 1: "err (POST test_stdlib Background ''http://foo.com'') = None" by (simp add: POST_def)
  note 2 = test_json_hello(1)
  have 4: "Build test_stdlib (JSON test_json [0x68, 0x65, 0x6C, 0x6C, 0x6F] (POST test_stdlib Background ''http://foo.com'')) = Inr (\<lparr>rb_client = DefaultClient test_stdlib, rb_request = Some (\<lparr>req_ctx = Background, req_Method = ''POST'', req_URL = \<lparr>url_Location = ''http://foo.com'', RawQuery = []\<rparr>, req_Header = Some [], req_Body = Some (NewBuffer [0x22, 0x68, 0x65, 0x6C, 0x6C, 0x6F, 0x22])\<rparr>), rb_response = \<lparr>resp_Response = None, resp_Body = []\<rparr>, rb_err = None\<rparr>, JSON test_json [0x68, 0x65, 0x6C, 0x6C, 0x6F] (POST test_stdlib Background ''http://foo.com''))"
    by (simp add: 2 JSON_def Body_def POST_def test_stdlib_def Build_def http_NewRequest_def
        validMethod_def isToken_def Let_def map_len_def ctx_Value_def Background_def Values_Encode_def)
  have 5: "rb_request (\<lparr>rb_client = DefaultClient test_stdlib, rb_request = Some (\<lparr>req_ctx = Background, req_Method = ''POST'', req_URL = \<lparr>url_Location = ''http://foo.com'', RawQuery = []\<rparr>, req_Header = Some [], req_Body = Some (NewBuffer [0x22, 0x68, 0x65, 0x6C, 0x6C, 0x6F, 0x22])\<rparr>), rb_response = \<lparr>resp_Response = None, resp_Body = []\<rparr>, rb_err = None\<rparr>) = Some (\<lparr>req_ctx = Background, req_Method = ''POST'', req_URL = \<lparr>url_Location = ''http://foo.com'', RawQuery = []\<rparr>, req_Header = Some [], req_Body = Some (NewBuffer [0x22, 0x68, 0x65, 0x6C, 0x6C, 0x6F, 0x22])\<rparr>)" by simp
  from JSON_round_trip[OF 1 2 4 5] test_json_hello(2) have
    "body (JSON test_json [0x68, 0x65, 0x6C, 0x6C, 0x6F] (POST test_stdlib Background ''http://foo.com'')) = Some (NewBuffer [0x22, 0x68, 0x65, 0x6C, 0x6C, 0x6F, 0x22])
     \<and> (\<exists>s. req_Body (\<lparr>req_ctx = Background, req_Method = ''POST'', req_URL = \<lparr>url_Location = ''http://foo.com'', RawQuery = []\<rparr>, req_Header = Some [], req_Body = Some (NewBuffer [0x22, 0x68, 0x65, 0x6C, 0x6C, 0x6F, 0x22])\<rparr>) = Some s
         \<and> fst (ReadAll s) = ([0x22, 0x68, 0x65, 0x6C, 0x6C, 0x6F, 0x22], None)
         \<and> Unmarshal test_json (fst (fst (ReadAll s))) = Inr [0x68, 0x65, 0x6C, 0x6C, 0x6F])"
    by auto
  with 1 2 4 show ?thesis by blast
qed

text \<open>
  Claim C7 as stated promises the round trip for every value that can be serialized. A
  value of the Go type \<^verbatim>\<open>struct{ secret int }\<close> with the field set to 1 is accepted by
  \<^verbatim>\<open>json.Marshal\<close>; \<^verbatim>\<open>JSON\<close> sets the body \<^verbatim>\<open>{}\<close>, the built request carries it, and
  decoding it gives the value with the field 0, not the value that was serialized.
\<close>

theorem JSON_round_trip_counterexample:
  "err (POST test_stdlib Background ''http://foo.com'') = None
   \<and> Marshal unexported_json 1 = Inr [0x7B, 0x7D]
   \<and> Request_of test_stdlib (JSON unexported_json 1 (POST test_stdlib Background ''http://foo.com''))
       = Inr ((Some \<lparr>req_ctx = Background, req_Method = ''POST'',
                     req_URL = \<lparr>url_Location = ''http://foo.com'', RawQuery = []\<rparr>,
                     req_Header = Some [],
                     req_Body = Some (NewBuffer [0x7B, 0x7D])\<rparr>, None),
              JSON unexported_json 1 (POST test_stdlib Background ''http://foo.com''))
   \<and> fst (ReadAll (NewBuffer [0x7B, 0x7D])) = ([0x7B, 0x7D], None)
   \<and> Unmarshal unexported_json (fst (fst (ReadAll (NewBuffer [0x7B, 0x7D])))) = Inr 0
   \<and> Unmarshal unexported_json (fst (fst (ReadAll (NewBuffer [0x7B, 0x7D])))) \<noteq> Inr 1"
  by (simp add: Request_of_def Build_def JSON_def Body_def POST_def test_stdlib_def
      unexported_json_def http_NewRequest_def validMethod_def isToken_def Let_def map_len_def
      ctx_Value_def Background_def Values_Encode_def ReadAll_def NewBuffer_def)

section \<open>Where the transport is called\<close>

lemma Build_cases:
  assumes "Build env b = Inr (rb, b')"
  shows "(rb_request rb = None \<and> rb_err rb \<noteq> None) \<or> (rb_request rb \<noteq> None \<and> rb_err rb = None)"
proof (cases "rb_request rb")
  case None
  show ?thesis
  proof (cases "err b")
    case (Some e)
    then show ?thesis using assms None Build_error[of b e env] by auto
  next
    case e: None
    show ?thesis
    proof (cases "http_NewRequest env (method b) (endpoint b) (body b)")
      case (Inl er)
      then show ?thesis using assms None e Build_NewRequest_error[of b env er] by auto
    next
      case (Inr req0)
      then show ?thesis using assms None Build_request[OF e Inr] by auto
    qed
  qed
next
  case (Some req)
  then show ?thesis using Build_built(2)[OF assms Some] by simp
qed

lemma makeRequest_wire:
  assumes "makeRequest rb w = Inr (rb', w')"
  shows "wire w' = wire w @
     (if rb_err rb = None
      then (case rb_request rb of
              Some req \<Rightarrow> [fold (\<lambda>interceptor r. interceptor r) (beforeEachInterceptors w) req]
            | None \<Rightarrow> [])
      else [])"
  using assms
  by (auto simp: makeRequest_def Let_def ReadAll_def split: if_splits option.splits prod.splits)

lemma Build_client:
  "Build env (b\<lparr>client := c\<rparr>) =
     (case Build env b of
        Inl p \<Rightarrow> Inl p
      | Inr (rb, b') \<Rightarrow> Inr (rb\<lparr>rb_client := c\<rparr>, b'\<lparr>client := c\<rparr>))"
  by (auto simp: Build_def Let_def split: option.splits sum.splits dyn.splits)

text \<open>
  Claim C6. \<^verbatim>\<open>Build\<close> and \<^verbatim>\<open>Request\<close> do not use the transport: they only copy the
  client, and everything else they return is the same whatever the client is. (They are
  functions that neither take nor return the world, as their source calls neither the
  client nor an interceptor.) The transport is called by \<^verbatim>\<open>Send\<close>: when \<^verbatim>\<open>Send\<close> returns,
  it has handed exactly one request to the transport if \<^verbatim>\<open>Build\<close> made a request, namely
  that request after the interceptors, and none if \<^verbatim>\<open>Build\<close> made no request.
\<close>

theorem transport_only_on_Send:
  "Build env (b\<lparr>client := c\<rparr>) =
     (case Build env b of
        Inl p \<Rightarrow> Inl p
      | Inr (rb, b') \<Rightarrow> Inr (rb\<lparr>rb_client := c\<rparr>, b'\<lparr>client := c\<rparr>))
   \<and> Request_of env (b\<lparr>client := c\<rparr>) =
     (case Request_of env b of
        Inl p \<Rightarrow> Inl p
      | Inr (r, b') \<Rightarrow> Inr (r, b'\<lparr>client := c\<rparr>))
   \<and> (\<forall>rb b1 out w'. Build env b = Inr (rb, b1) \<and> Send env b w = Inr (out, w') \<longrightarrow>
         wire w' = wire w @
           (case rb_request rb of
              Some req \<Rightarrow> [fold (\<lambda>interceptor r. interceptor r) (beforeEachInterceptors w) req]
            | None \<Rightarrow> []))"
proof -
  have 1: "Request_of env (b\<lparr>client := c\<rparr>) =
     (case Request_of env b of
        Inl p \<Rightarrow> Inl p
      | Inr (r, b') \<Rightarrow> Inr (r, b'\<lparr>client := c\<rparr>))"
    by (auto simp: Request_of_def Build_client split: sum.splits option.splits)
  have 2: "wire w' = wire w @
           (case rb_request rb of
              Some req \<Rightarrow> [fold (\<lambda>interceptor r. interceptor r) (beforeEachInterceptors w) req]
            | None \<Rightarrow> [])"
    if B: "Build env b = Inr (rb, b1)" and S: "Send env b w = Inr (out, w')" for rb b1 out w'
  proof -
    obtain rb' where m: "makeRequest rb w = Inr (rb', w')"
      using S B by (auto simp: Send_def split: sum.splits option.splits)
    show ?thesis using makeRequest_wire[OF m] Build_cases[OF B] by (auto split: option.splits)
  qed
  show ?thesis using Build_client 1 2 by blast
qed

text \<open>The theorem at a concrete input, every hypothesis discharged there.\<close>

theorem transport_only_on_Send_witness:
  "Build (test_stdlib\<lparr>DefaultClient := answering 200 []\<rparr>) (GET (test_stdlib\<lparr>DefaultClient := answering 200 []\<rparr>) Background ''http://foo.com'') = Inr (\<lparr>rb_client = answering 200 [], rb_request = Some (\<lparr>req_ctx = Background, req_Method = ''GET'', req_URL = \<lparr>url_Location = ''http://foo.com'', RawQuery = []\<rparr>, req_Header = Some [], req_Body = None\<rparr>), rb_response = \<lparr>resp_Response = None, resp_Body = []\<rparr>, rb_err = None\<rparr>, (GET (test_stdlib\<lparr>DefaultClient := answering 200 []\<rparr>) Background ''http://foo.com''))
   \<and> (\<exists>out w'. Send (test_stdlib\<lparr>DefaultClient := answering 200 []\<rparr>) (GET (test_stdlib\<lparr>DefaultClient := answering 200 []\<rparr>) Background ''http://foo.com'') \<lparr>beforeEachInterceptors = [], wire = []\<rparr> = Inr (out, w') \<and> wire w' = [\<lparr>req_ctx = Background, req_Method = ''GET'', req_URL = \<lparr>url_Location = ''http://foo.com'', RawQuery = []\<rparr>, req_Header = Some [], req_Body = None\<rparr>])"
proof -
  have a1: "Build (test_stdlib\<lparr>DefaultClient := answering 200 []\<rparr>) (GET (test_stdlib\<lparr>DefaultClient := answering 200 []\<rparr>) Background ''http://foo.com'') = Inr (\<lparr>rb_client = answering 200 [], rb_request = Some (\<lparr>req_ctx = Background, req_Method = ''GET'', req_URL = \<lparr>url_Location = ''http://foo.com'', RawQuery = []\<rparr>, req_Header = Some [], req_Body = None\<rparr>), rb_response = \<lparr>resp_Response = None, resp_Body = []\<rparr>, rb_err = None\<rparr>, (GET (test_stdlib\<lparr>DefaultClient := answering 200 []\<rparr>) Background ''http://foo.com''))"
    by (simp add: GET_def POST_def PATCH_def PUT_def test_stdlib_def test_json_def Header_def map_assign_def map_index_def Build_def http_NewRequest_def validMethod_def isToken_def Let_def map_len_def ctx_Value_def Background_def WithValue_def Values_Encode_def Values_Add_def CorrelationIDHeaderKey_def Header_Add_def Header_Get_def Body_def JSON_def NewBuffer_def answering_def)
  have b1: "rb_request (\<lparr>rb_client = answering 200 [], rb_request = Some (\<lparr>req_ctx = Background, req_Method = ''GET'', req_URL = \<lparr>url_Location = ''http://foo.com'', RawQuery = []\<rparr>, req_Header = Some [], req_Body = None\<rparr>), rb_response = \<lparr>resp_Response = None, resp_Body = []\<rparr>, rb_err = None\<rparr>) = Some (\<lparr>req_ctx = Background, req_Method = ''GET'', req_URL = \<lparr>url_Location = ''http://foo.com'', RawQuery = []\<rparr>, req_Header = Some [], req_Body = None\<rparr>)" by simp
  have c1: "client (GET (test_stdlib\<lparr>DefaultClient := answering 200 []\<rparr>) Background ''http://foo.com'') (fold (\<lambda>interceptor r. interceptor r) (beforeEachInterceptors \<lparr>beforeEachInterceptors = [], wire = []\<rparr>) (\<lparr>req_ctx = Background, req_Method = ''GET'', req_URL = \<lparr>url_Location = ''http://foo.com'', RawQuery = []\<rparr>, req_Header = Some [], req_Body = None\<rparr>))
           = (Some \<lparr>StatusCode = 200, hr_Body = NewBuffer []\<rparr>, None)"
    by (simp add: GET_def POST_def PATCH_def PUT_def test_stdlib_def test_json_def Header_def map_assign_def map_index_def Build_def http_NewRequest_def validMethod_def isToken_def Let_def map_len_def ctx_Value_def Background_def WithValue_def Values_Encode_def Values_Add_def CorrelationIDHeaderKey_def Header_Add_def Header_Get_def Body_def JSON_def NewBuffer_def answering_def)
  have s: "\<exists>out w'. Send (test_stdlib\<lparr>DefaultClient := answering 200 []\<rparr>) (GET (test_stdlib\<lparr>DefaultClient := answering 200 []\<rparr>) Background ''http://foo.com'') \<lparr>beforeEachInterceptors = [], wire = []\<rparr> = Inr (out, w')"
    using Send_completed[OF a1 b1 c1] by blast
  then obtain out w' where s': "Send (test_stdlib\<lparr>DefaultClient := answering 200 []\<rparr>) (GET (test_stdlib\<lparr>DefaultClient := answering 200 []\<rparr>) Background ''http://foo.com'') \<lparr>beforeEachInterceptors = [], wire = []\<rparr> = Inr (out, w')" by blast
  from transport_only_on_Send[where env="(test_stdlib\<lparr>DefaultClient := answering 200 []\<rparr>)" and b="(GET (test_stdlib\<lparr>DefaultClient := answering 200 []\<rparr>) Background ''http://foo.com'')" and c="client (GET (test_stdlib\<lparr>DefaultClient := answering 200 []\<rparr>) Background ''http://foo.com'')" and w="\<lparr>beforeEachInterceptors = [], wire = []\<rparr>"] a1 s'
  have "wire w' = wire \<lparr>beforeEachInterceptors = [], wire = []\<rparr> @ (case rb_request (\<lparr>rb_client = answering 200 [], rb_request = Some (\<lparr>req_ctx = Background, req_Method = ''GET'', req_URL = \<lparr>url_Location = ''http://foo.com'', RawQuery = []\<rparr>, req_Header = Some [], req_Body = None\<rparr>), rb_response = \<lparr>resp_Response = None, resp_Body = []\<rparr>, rb_err = None\<rparr>) of
              Some req \<Rightarrow> [fold (\<lambda>interceptor r. interceptor r) (beforeEachInterceptors \<lparr>beforeEachInterceptors = [], wire = []\<rparr>) req]
            | None \<Rightarrow> [])"
    by blast
  then have "wire w' = [\<lparr>req_ctx = Background, req_Method = ''GET'', req_URL = \<lparr>url_Location = ''http://foo.com'', RawQuery = []\<rparr>, req_Header = Some [], req_Body = None\<rparr>]" by simp
  with a1 s' show ?thesis by blast
qed

section \<open>The content type\<close>

lemma JSON_headers: "headers (JSON codec v b) = headers b"
  by (auto simp: JSON_def Body_def split: sum.splits)

text \<open>
  Claim C8 does not hold of the current revision. \<^verbatim>\<open>JSON\<close> marshals the value and sets
  the body, and sets no header: the request built from
  \<^verbatim>\<open>POST(ctx, "http://foo.com").JSON(v)\<close> has the marshalled bytes as its body and an
  empty header, with no value under \<^verbatim>\<open>content-type\<close> in either spelling.
\<close>

theorem JSON_sets_no_content_type:
  "Request_of test_stdlib (JSON test_json [0x68, 0x65, 0x6C, 0x6C, 0x6F] (POST test_stdlib Background ''http://foo.com''))
     = Inr ((Some \<lparr>req_ctx = Background, req_Method = ''POST'',
                   req_URL = \<lparr>url_Location = ''http://foo.com'', RawQuery = []\<rparr>,
                   req_Header = Some [],
                   req_Body = Some (NewBuffer [0x22, 0x68, 0x65, 0x6C, 0x6C, 0x6F, 0x22])\<rparr>, None),
            JSON test_json [0x68, 0x65, 0x6C, 0x6C, 0x6F] (POST test_stdlib Background ''http://foo.com''))
   \<and> map_index (Some []) ''content-type'' = []
   \<and> map_index (Some []) (CanonicalMIMEHeaderKey test_stdlib ''content-type'') = []"
  by (simp add: Request_of_def Build_def JSON_def Body_def POST_def test_stdlib_def test_json_def
      http_NewRequest_def validMethod_def isToken_def Let_def map_len_def ctx_Value_def Background_def
      Values_Encode_def map_index_def)

text \<open>
  The earlier revision does what claim C8 says: after its \<^verbatim>\<open>JSON\<close>, the request that its
  \<^verbatim>\<open>Build\<close> makes has \<^verbatim>\<open>application/json\<close> as the last value of \<^verbatim>\<open>content-type\<close>.
\<close>

lemma JSON1_sets_content_type:
  assumes "err1 b = None" and "JSON1 codec v b = Inr b'" and "Build1 env b' = (Some req, e)"
  shows "map_index (req_Header req) ''content-type''
           = map_index (headers1 b) ''content-type'' @ [''application/json'']"
proof -
  obtain b1 where h: "Header1 ''content-type'' ''application/json'' b = Inr b1"
    using assms(1,2) by (auto simp: JSON1_def split: sum.splits)
  then obtain kvs where kvs: "headers1 b = Some kvs"
    by (auto simp: Header1_def map_assign_def split: option.splits)
  have hb1: "headers1 b1 = Some (AList.update ''content-type''
       (map_index (headers1 b) ''content-type'' @ [''application/json'']) kvs)"
    using h kvs by (auto simp: Header1_def map_assign_def)
  have "headers1 b' = headers1 b1"
    using assms(1,2) h by (auto simp: JSON1_def Header1_def split: sum.splits option.splits if_splits)
  then have hb': "headers1 b' = Some (AList.update ''content-type''
       (map_index (headers1 b) ''content-type'' @ [''application/json'']) kvs)"
    using hb1 by simp
  have pos: "0 < map_len (headers1 b')"
    by (cases kvs) (auto simp: hb' map_len_def)
  have "req_Header req = headers1 b'"
    using assms(3) pos by (auto simp: Build1_def Let_def split: option.splits sum.splits)
  then show ?thesis
    by (simp add: hb' map_index_def update_conv')
qed

section \<open>The lines of \<^verbatim>\<open>Trace\<close>\<close>

lemma digits_examples:
  "digits 0 = ''0''" "digits 250 = ''250''" "digits 1000 = ''1000''" "digits 1250 = ''1250''"
  by (simp_all add: digits.simps)

lemma Trace_lines:
  "Trace clock msg log w =
     (\<lambda>log' v.
        emit ''info'' (prefix log')
          (''[END - '' @ format_d (UnixMilli (clock (clock_reads (callBeforeEachHandlers log' Events_TraceEnd msg v))))
             @ ''('' @ format_d (Milliseconds
                 (clock (Suc (clock_reads (callBeforeEachHandlers log' Events_TraceEnd msg v)))
                    - clock (clock_reads (callBeforeEachHandlers log Events_TraceStart msg w))))
             @ ''ms)] '' @ msg)
          ((callBeforeEachHandlers log' Events_TraceEnd msg v)
             \<lparr>clock_reads := Suc (Suc (clock_reads (callBeforeEachHandlers log' Events_TraceEnd msg v)))\<rparr>),
      emit ''info'' (prefix log)
        (''[END - '' @ format_d (UnixMilli (clock (Suc (clock_reads (callBeforeEachHandlers log Events_TraceStart msg w)))))
           @ ''('' @ format_d (Milliseconds
               (clock (Suc (Suc (clock_reads (callBeforeEachHandlers log Events_TraceStart msg w))))
                  - clock (clock_reads (callBeforeEachHandlers log Events_TraceStart msg w))))
           @ ''ms)] '' @ msg)
        ((callBeforeEachHandlers log Events_TraceStart msg w)
           \<lparr>clock_reads := Suc (Suc (Suc (clock_reads (callBeforeEachHandlers log Events_TraceStart msg w))))\<rparr>))"
  by (simp add: Trace_def time_Now_def Let_def)

text \<open>
  Claim C9 does not hold of \<^verbatim>\<open>Trace\<close>. The line written when \<^verbatim>\<open>Trace\<close> is called is
  formatted with the format string of the end marker, \<^verbatim>\<open>[END - %d(%dms)] %s\<close>: it reads
  \<^verbatim>\<open>[END - 1000(0ms)] job\<close>, and the closure's line reads \<^verbatim>\<open>[END - 1250(250ms)] job\<close>
  with the 250 milliseconds elapsed since the call. The first line is told from an end
  marker by nothing but its elapsed time of zero.
\<close>

theorem Trace_start_line_says_END:
  "written (snd (Trace test_clock ''job'' (Prefix ''abc'' New) \<lparr>clock_reads = 0, written = []\<rparr>))
     = [\<lparr>level = ''info'', correlation_id = ''abc'', message = ''[END - 1000(0ms)] job''\<rparr>]
   \<and> written (fst (Trace test_clock ''job'' (Prefix ''abc'' New) \<lparr>clock_reads = 0, written = []\<rparr>)
        (Prefix ''abc'' New)
        (snd (Trace test_clock ''job'' (Prefix ''abc'' New) \<lparr>clock_reads = 0, written = []\<rparr>)))
     = [\<lparr>level = ''info'', correlation_id = ''abc'', message = ''[END - 1000(0ms)] job''\<rparr>,
        \<lparr>level = ''info'', correlation_id = ''abc'', message = ''[END - 1250(250ms)] job''\<rparr>]"
  by (simp add: Trace_lines callBeforeEachHandlers_def Prefix_def New_def emit_def test_clock_def
      format_d_def UnixMilli_def Milliseconds_def signed_divide_int_def digits_examples)

end
